theory Spec2Isabelle
  imports Main "HOL-Library.Word" "HOL-Library.Sublist"
begin

section \<open>Data model\<close>

text \<open>
  A Go byte slice is a list of bytes that may also be the nil slice. Bytes are
  Isabelle characters (a \<open>char\<close> is one byte); \<open>None\<close> is nil.
\<close>

type_synonym bytes = "string option"

text \<open>\<open>base.Compare\<close>: a three-way comparison of user keys supplied by the comparer.\<close>

type_synonym Compare = "bytes \<Rightarrow> bytes \<Rightarrow> int"

text \<open>Sequence numbers and byte sizes are \<open>uint64\<close>.\<close>

type_synonym SeqNum = "64 word"

datatype InternalKeyKind =
    InternalKeyKindDelete
  | InternalKeyKindSet
  | InternalKeyKindMerge
  | InternalKeyKindSingleDelete
  | InternalKeyKindRangeDelete
  | InternalKeyKindRangeKeyDelete
  | InternalKeyKindRangeKeyUnset
  | InternalKeyKindRangeKeySet
  | InternalKeyKindDeleteSized

text \<open>An internal key: user key, sequence number and kind (the latter two form the trailer).\<close>

record InternalKey =
  UserKey :: bytes
  SeqNum :: SeqNum
  Kind :: InternalKeyKind

datatype CompactionState =
    CompactionStateNotCompacting
  | CompactionStateCompacting
  | CompactionStateCompacted

text \<open>\<open>manifest.FileMetadata\<close>, with the fields the compaction code reads and writes.\<close>

record fileMetadata =
  FileNum :: nat
  Size :: "64 word"
  SmallestSeqNum :: SeqNum
  LargestSeqNum :: SeqNum
  SmallestPointKey :: InternalKey
  LargestPointKey :: InternalKey
  SmallestRangeKey :: InternalKey
  LargestRangeKey :: InternalKey
  Smallest :: InternalKey
  Largest :: InternalKey
  boundsSet :: bool
  HasPointKeys :: bool
  HasRangeKeys :: bool
  Virtual :: bool
  DiskFileNum :: nat
  CompactionState :: CompactionState
  IsIntraL0Compacting :: bool

text \<open>\<open>manifest.UserKeyRange\<close>: an in-use key range.\<close>

record UserKeyRange =
  Start :: bytes
  End :: bytes

text \<open>\<open>compactionLevel\<close>: a level and the slice of its files taking part.\<close>

record compactionLevel =
  level :: int
  files :: "fileMetadata list"

datatype compactionKind =
    compactionKindDefault
  | compactionKindFlush
  | compactionKindMove
  | compactionKindCopy
  | compactionKindDeleteOnly
  | compactionKindElisionOnly
  | compactionKindRead
  | compactionKindRewrite
  | compactionKindIngestedFlushable

text \<open>
  The \<open>compaction\<close> struct. \<open>flushing\<close> lists the memtables being flushed (by log
  number); \<open>startLevel\<close> and \<open>outputLevel\<close> are pointers into \<open>inputs\<close> in the
  source and are indices here.
\<close>

record compaction =
  kind :: compactionKind
  cancel :: bool
  cmp :: Compare
  inputs :: "compactionLevel list"
  startLevel :: nat
  outputLevel :: nat
  extraLevels :: "compactionLevel list"
  maxOverlapBytes :: "64 word"
  disableSpanElision :: bool
  flushing :: "nat list"
  smallest :: InternalKey
  largest :: InternalKey
  grandparents :: "fileMetadata list"
  inuseKeyRanges :: "UserKeyRange list"
  inuseEntireRange :: bool
  elideTombstoneIndex :: nat
  allowedZeroSeqNum :: bool
  versionEditApplied :: bool

section \<open>Library functions of Go used by the code\<close>

text \<open>
  \<open>sort.Search(n, f)\<close> of the Go standard library: binary search for the smallest
  index in \<open>[0, n)\<close> at which \<open>f\<close> holds.
\<close>

function sort_Search_loop :: "(nat \<Rightarrow> bool) \<Rightarrow> nat \<Rightarrow> nat \<Rightarrow> nat" where
  "sort_Search_loop f i j =
     (if i < j then
        (let h = (i + j) div 2 in
         if \<not> f h then sort_Search_loop f (h + 1) j else sort_Search_loop f i h)
      else i)"
  by pat_completeness auto
termination
  by (relation "measure (\<lambda>(f, i, j). j - i)") auto

declare sort_Search_loop.simps [simp del]

definition sort_Search :: "nat \<Rightarrow> (nat \<Rightarrow> bool) \<Rightarrow> nat" where
  "sort_Search n f = sort_Search_loop f 0 n"

text \<open>\<open>bytes.Compare\<close>, the comparison of the default comparer; nil compares as empty.\<close>

fun string_Compare :: "string \<Rightarrow> string \<Rightarrow> int" where
  "string_Compare [] [] = 0"
| "string_Compare [] (y # ys) = -1"
| "string_Compare (x # xs) [] = 1"
| "string_Compare (x # xs) (y # ys) =
     (if (of_char x :: nat) < of_char y then -1
      else if (of_char y :: nat) < of_char x then 1
      else string_Compare xs ys)"

definition bytes_Compare :: Compare where
  "bytes_Compare a b =
     string_Compare (case a of None \<Rightarrow> [] | Some s \<Rightarrow> s) (case b of None \<Rightarrow> [] | Some s \<Rightarrow> s)"

section \<open>Elision predicates\<close>

text \<open>
  \<open>compaction.elideTombstone\<close>. The method advances the cursor
  \<open>c.elideTombstoneIndex\<close>; the model returns the answer and the compaction with
  the cursor where the loop left it.
\<close>

function elideTombstone_loop :: "Compare \<Rightarrow> UserKeyRange list \<Rightarrow> bytes \<Rightarrow> nat \<Rightarrow> bool \<times> nat" where
  "elideTombstone_loop cmpf rs key idx =
     (if idx < length rs then
        (let r = rs ! idx in
         if cmpf key (End r) \<le> 0 then
           (if cmpf key (Start r) \<ge> 0 then (False, idx) else (True, idx))
         else elideTombstone_loop cmpf rs key (idx + 1))
      else (True, idx))"
  by pat_completeness auto
termination
  by (relation "measure (\<lambda>(cmpf, rs, key, idx). length rs - idx)") auto

declare elideTombstone_loop.simps [simp del]

definition elideTombstone :: "compaction \<Rightarrow> bytes \<Rightarrow> bool \<times> compaction" where
  "elideTombstone c key =
     (if inuseEntireRange c \<or> length (flushing c) \<noteq> 0 then (False, c)
      else
        (case elideTombstone_loop (cmp c) (inuseKeyRanges c) key (elideTombstoneIndex c) of
           (b, idx) \<Rightarrow> (b, c\<lparr>elideTombstoneIndex := idx\<rparr>)))"

text \<open>\<open>compaction.elideRangeTombstone\<close>.\<close>

definition elideRangeTombstone :: "compaction \<Rightarrow> bytes \<Rightarrow> bytes \<Rightarrow> bool" where
  "elideRangeTombstone c start end =
     (if disableSpanElision c \<or> length (flushing c) \<noteq> 0 then False
      else
        (let lower = sort_Search (length (inuseKeyRanges c))
                       (\<lambda>i. cmp c (End (inuseKeyRanges c ! i)) start \<ge> 0);
             upper = sort_Search (length (inuseKeyRanges c))
                       (\<lambda>i. cmp c (Start (inuseKeyRanges c ! i)) end > 0)
         in lower \<ge> upper))"

text \<open>\<open>compaction.elideRangeKey\<close>.\<close>

definition elideRangeKey :: "compaction \<Rightarrow> bytes \<Rightarrow> bytes \<Rightarrow> bool" where
  "elideRangeKey c start end = elideRangeTombstone c start end"

text \<open>\<open>compaction.allowZeroSeqNum\<close>.\<close>

definition allowZeroSeqNum :: "compaction \<Rightarrow> bool" where
  "allowZeroSeqNum c = elideRangeTombstone c (UserKey (smallest c)) (UserKey (largest c))"

section \<open>Errors\<close>

text \<open>
  The ways the modelled functions stop without a result: a Go panic, a fatal log
  (\<open>Logger.Fatalf\<close> ends the process), the cancellation error, an error built with
  \<open>errors.Errorf\<close>, \<open>oserror.ErrExist\<close>, an \<open>os.PathError\<close> (operation, path,
  wrapped error), and an error handed up from a collaborator (file system, object
  provider, WAL).
\<close>

datatype error =
    Panic string
  | Fatal string
  | ErrCancelledCompaction
  | Errorf string
  | ErrExist
  | PathError string "string list" error
  | IOError string

section \<open>Deletion hints\<close>

datatype deleteCompactionHintType =
    deleteCompactionHintTypeUnknown
  | deleteCompactionHintTypePointKeyOnly
  | deleteCompactionHintTypeRangeKeyOnly
  | deleteCompactionHintTypePointAndRangeKey

text \<open>
  \<open>deleteCompactionHint\<close>. The source's fields \<open>start\<close> and \<open>end\<close> are
  \<open>hintStart\<close> and \<open>hintEnd\<close> here; \<open>tombstoneFile\<close> is the file's number.
\<close>

record deleteCompactionHint =
  hintType :: deleteCompactionHintType
  hintStart :: bytes
  hintEnd :: bytes
  tombstoneLevel :: int
  tombstoneFile :: nat
  tombstoneLargestSeqNum :: SeqNum
  tombstoneSmallestSeqNum :: SeqNum
  fileSmallestSeqNum :: SeqNum

text \<open>
  Modelled from the spec: \<open>compact.Snapshots.Index\<close> (package internal/compact) is
  not among the sources. The spec places a key in the stripe of "the smallest
  \<open>s_i > key.seq_num\<close>" of the ascending snapshot list; the index is the position
  of that snapshot, or the length of the list when there is none.
\<close>

fun Snapshots_Index :: "SeqNum list \<Rightarrow> SeqNum \<Rightarrow> nat" where
  "Snapshots_Index [] seq = 0"
| "Snapshots_Index (s # ss) seq = (if s > seq then 0 else Suc (Snapshots_Index ss seq))"

text \<open>\<open>deleteCompactionHint.canDelete\<close>; the default case of the switch panics.\<close>

definition canDelete ::
  "deleteCompactionHint \<Rightarrow> Compare \<Rightarrow> fileMetadata \<Rightarrow> SeqNum list \<Rightarrow> error + bool" where
  "canDelete h cmpf m snapshots =
     (if LargestSeqNum m \<ge> tombstoneSmallestSeqNum h \<or> SmallestSeqNum m < fileSmallestSeqNum h
      then Inr False
      else if Snapshots_Index snapshots (tombstoneLargestSeqNum h)
              \<noteq> Snapshots_Index snapshots (SmallestSeqNum m)
      then Inr False
      else
        (let contained =
               (cmpf (hintStart h) (UserKey (Smallest m)) \<le> 0
                \<and> cmpf (UserKey (Largest m)) (hintEnd h) < 0)
         in case hintType h of
              deleteCompactionHintTypePointKeyOnly \<Rightarrow>
                if HasRangeKeys m then Inr False else Inr contained
            | deleteCompactionHintTypeRangeKeyOnly \<Rightarrow>
                if HasPointKeys m then Inr False else Inr contained
            | deleteCompactionHintTypePointAndRangeKey \<Rightarrow> Inr contained
            | deleteCompactionHintTypeUnknown \<Rightarrow>
                Inl (Panic ''pebble: unknown delete compaction hint type'')))"

text \<open>
  The delete rule in the words of the specification. Its hint types are
  \<open>PointOnly\<close>, \<open>RangeKeyOnly\<close> and \<open>Both\<close>; a hint of the source's fourth type
  \<open>Unknown\<close> matches no file.
\<close>

definition hint_type_matches :: "deleteCompactionHintType \<Rightarrow> fileMetadata \<Rightarrow> bool" where
  "hint_type_matches t m =
     (case t of
        deleteCompactionHintTypePointKeyOnly \<Rightarrow> \<not> HasRangeKeys m
      | deleteCompactionHintTypeRangeKeyOnly \<Rightarrow> \<not> HasPointKeys m
      | deleteCompactionHintTypePointAndRangeKey \<Rightarrow> True
      | deleteCompactionHintTypeUnknown \<Rightarrow> False)"

definition can_delete_spec ::
  "deleteCompactionHint \<Rightarrow> Compare \<Rightarrow> fileMetadata \<Rightarrow> SeqNum list \<Rightarrow> bool" where
  "can_delete_spec h cmpf m snapshots =
     (LargestSeqNum m < tombstoneSmallestSeqNum h
      \<and> SmallestSeqNum m \<ge> fileSmallestSeqNum h
      \<and> Snapshots_Index snapshots (tombstoneLargestSeqNum h)
          = Snapshots_Index snapshots (SmallestSeqNum m)
      \<and> hint_type_matches (hintType h) m
      \<and> cmpf (hintStart h) (UserKey (Smallest m)) \<le> 0
      \<and> cmpf (UserKey (Largest m)) (hintEnd h) < 0)"

text \<open>
  \<open>DB.maybeUpdateDeleteCompactionHints\<close>. The state is \<open>d.mu.compact.deletionHints\<close>;
  the function returns its new value. The source filters the slice in place
  (\<open>updatedHints := hints[:0]\<close> and \<open>append\<close>): the write position never overtakes
  the read position, so the result is the list of the hints appended.
\<close>

definition inputsOlder :: "deleteCompactionHint \<Rightarrow> compaction \<Rightarrow> bool" where
  "inputsOlder h c =
     fold (\<lambda>inp acc.
            fold (\<lambda>f acc'. acc' \<and> LargestSeqNum f < tombstoneSmallestSeqNum h) (files inp) acc)
          (inputs c) True"

fun updateHints_loop ::
  "Compare \<Rightarrow> compaction \<Rightarrow> deleteCompactionHint list \<Rightarrow> deleteCompactionHint list
     \<Rightarrow> deleteCompactionHint list" where
  "updateHints_loop d_cmp c [] updatedHints = updatedHints"
| "updateHints_loop d_cmp c (h # hs) updatedHints =
     (let keysDisjoint =
            (d_cmp (hintEnd h) (UserKey (smallest c)) < 0
             \<or> d_cmp (hintStart h) (UserKey (largest c)) > 0)
      in if keysDisjoint then updateHints_loop d_cmp c hs (updatedHints @ [h])
         else if inputsOlder h c then updateHints_loop d_cmp c hs (updatedHints @ [h])
         else updateHints_loop d_cmp c hs updatedHints)"

definition maybeUpdateDeleteCompactionHints ::
  "Compare \<Rightarrow> compaction \<Rightarrow> deleteCompactionHint list \<Rightarrow> deleteCompactionHint list" where
  "maybeUpdateDeleteCompactionHints d_cmp c deletionHints =
     (if \<not> allowedZeroSeqNum c then deletionHints
      else updateHints_loop d_cmp c deletionHints [])"

text \<open>
  The invalidation rule in the words of the specification: the hint's span
  \<open>[start, end]\<close> overlaps the compaction's bounds, and some input file has a
  largest sequence number at or above the hint's smallest tombstone sequence number.
\<close>

definition spans_overlap :: "Compare \<Rightarrow> bytes \<Rightarrow> bytes \<Rightarrow> bytes \<Rightarrow> bytes \<Rightarrow> bool" where
  "spans_overlap cmpf s e lo hi = (cmpf e lo \<ge> 0 \<and> cmpf s hi \<le> 0)"

definition input_as_recent :: "deleteCompactionHint \<Rightarrow> compaction \<Rightarrow> bool" where
  "input_as_recent h c =
     (\<exists>inp \<in> set (inputs c). \<exists>f \<in> set (files inp).
        LargestSeqNum f \<ge> tombstoneSmallestSeqNum h)"

definition hint_invalidated :: "Compare \<Rightarrow> compaction \<Rightarrow> deleteCompactionHint \<Rightarrow> bool" where
  "hint_invalidated d_cmp c h =
     (spans_overlap d_cmp (hintStart h) (hintEnd h) (UserKey (smallest c)) (UserKey (largest c))
      \<and> input_as_recent h c)"

section \<open>Clearing the compacting state\<close>

text \<open>
  \<open>DB.clearCompactingState\<close>. Files are pointers in the source and values here: the
  input slices of one compaction come from different levels and share no file, so
  each file is visited once. A file that is not in the Compacting state makes the
  source call \<open>Logger.Fatalf\<close>. The function's last step re-initialises the L0
  sublevel bookkeeping of the current version and touches no file state.
\<close>

definition IsCompacting :: "fileMetadata \<Rightarrow> bool" where
  "IsCompacting f = (CompactionState f = CompactionStateCompacting)"

definition clear_file :: "compactionKind \<Rightarrow> bool \<Rightarrow> fileMetadata \<Rightarrow> error + fileMetadata" where
  "clear_file k rollback f =
     (if \<not> IsCompacting f then Inl (Fatal ''not being compacted'')
      else
        (let f1 =
               (if \<not> rollback then
                  (if k \<noteq> compactionKindMove
                   then f\<lparr>CompactionState := CompactionStateCompacted\<rparr>
                   else f\<lparr>CompactionState := CompactionStateNotCompacting\<rparr>)
                else f\<lparr>CompactionState := CompactionStateNotCompacting\<rparr>)
         in Inr (f1\<lparr>IsIntraL0Compacting := False\<rparr>)))"

fun clear_files :: "compactionKind \<Rightarrow> bool \<Rightarrow> fileMetadata list \<Rightarrow> error + fileMetadata list" where
  "clear_files k rollback [] = Inr []"
| "clear_files k rollback (f # fs) =
     (case clear_file k rollback f of
        Inl e \<Rightarrow> Inl e
      | Inr f' \<Rightarrow>
          (case clear_files k rollback fs of
             Inl e \<Rightarrow> Inl e
           | Inr fs' \<Rightarrow> Inr (f' # fs')))"

fun clear_levels ::
  "compactionKind \<Rightarrow> bool \<Rightarrow> compactionLevel list \<Rightarrow> error + compactionLevel list" where
  "clear_levels k rollback [] = Inr []"
| "clear_levels k rollback (cl # cls) =
     (case clear_files k rollback (files cl) of
        Inl e \<Rightarrow> Inl e
      | Inr fs' \<Rightarrow>
          (case clear_levels k rollback cls of
             Inl e \<Rightarrow> Inl e
           | Inr cls' \<Rightarrow> Inr (cl\<lparr>files := fs'\<rparr> # cls')))"

definition clearCompactingState :: "compaction \<Rightarrow> bool \<Rightarrow> error + compaction" where
  "clearCompactingState c rollback =
     (case clear_levels (kind c) rollback (inputs c) of
        Inl e \<Rightarrow> Inl e
      | Inr ins \<Rightarrow> Inr (c\<lparr>versionEditApplied := True, inputs := ins\<rparr>))"

text \<open>The state a file is left in, in the words of the claim.\<close>

definition cleared_state :: "compactionKind \<Rightarrow> bool \<Rightarrow> CompactionState" where
  "cleared_state k rollback =
     (if rollback then CompactionStateNotCompacting
      else if k = compactionKindMove then CompactionStateNotCompacting
      else CompactionStateCompacted)"

section \<open>Constructing a compaction; move and copy compactions\<close>

definition numLevels :: int where
  "numLevels = 7"

text \<open>
  \<open>pickedCompaction\<close>, with the fields \<open>newCompaction\<close> copies into the fields of
  \<open>compaction\<close> modelled here.
\<close>

record pickedCompaction =
  pc_kind :: compactionKind
  pc_cmp :: Compare
  pc_inputs :: "compactionLevel list"
  pc_extraLevels :: "compactionLevel list"
  pc_smallest :: InternalKey
  pc_largest :: InternalKey
  pc_maxOverlapBytes :: "64 word"

text \<open>
  The two queries \<open>newCompaction\<close> makes of the picked version (package
  internal/manifest): the files of a level overlapping the compaction's bounds,
  and the in-use key ranges of a range of levels.
\<close>

record version =
  Overlaps :: "int \<Rightarrow> InternalKey \<Rightarrow> InternalKey \<Rightarrow> fileMetadata list"
  CalculateInuseKeyRanges :: "int \<Rightarrow> int \<Rightarrow> bytes \<Rightarrow> bytes \<Rightarrow> UserKeyRange list"

text \<open>\<open>LevelSlice.SizeSum\<close>: the sum of the file sizes, in \<open>uint64\<close>.\<close>

definition SizeSum :: "fileMetadata list \<Rightarrow> 64 word" where
  "SizeSum fs = sum_list (map Size fs)"

text \<open>\<open>compaction.hasExtraLevelData\<close>.\<close>

definition hasExtraLevelData :: "compaction \<Rightarrow> bool" where
  "hasExtraLevelData c =
     (if length (extraLevels c) = 0 then False
      else if files (extraLevels c ! 0) = [] then False
      else True)"

text \<open>\<open>compaction.setupInuseKeyRanges\<close>.\<close>

definition setupInuseKeyRanges :: "version \<Rightarrow> compaction \<Rightarrow> compaction" where
  "setupInuseKeyRanges v c =
     (let out = level (inputs c ! outputLevel c);
          lvl = (if out = 0 then 0 else out + 1);
          rs = CalculateInuseKeyRanges v lvl (numLevels - 1)
                 (UserKey (smallest c)) (UserKey (largest c));
          c1 = c\<lparr>inuseKeyRanges := rs\<rparr>
      in if length rs > 0 then
           c1\<lparr>inuseEntireRange :=
                 (cmp c (Start (rs ! 0)) (UserKey (smallest c)) \<le> 0
                  \<and> cmp c (End (rs ! 0)) (UserKey (largest c)) \<ge> 0)\<rparr>
         else c1)"

text \<open>
  \<open>newCompaction\<close>. \<open>shouldCreateShared lvl\<close> stands for
  \<open>remote.ShouldCreateShared(opts.Experimental.CreateOnShared, lvl)\<close>, and the
  provider, when there is one, for \<open>objstorage.IsLocalTable(provider, n)\<close>.
  Taking \<open>&c.inputs[1]\<close> panics when the picked compaction has fewer than two
  input levels. \<open>newCompaction_setup\<close> is the function up to \<open>c.kind = pc.kind\<close>,
  \<open>newCompaction\<close> adds the conversion into a move or a copy.
\<close>

definition newCompaction_setup :: "pickedCompaction \<Rightarrow> version \<Rightarrow> compaction" where
  "newCompaction_setup pc v =
     (let c0 = \<lparr>kind = compactionKindDefault, cancel = False, cmp = pc_cmp pc,
                inputs = pc_inputs pc, startLevel = 0, outputLevel = 1, extraLevels = [],
                maxOverlapBytes = pc_maxOverlapBytes pc, disableSpanElision = False,
                flushing = [], smallest = pc_smallest pc, largest = pc_largest pc,
                grandparents = [], inuseKeyRanges = [], inuseEntireRange = False,
                elideTombstoneIndex = 0, allowedZeroSeqNum = False,
                versionEditApplied = False\<rparr>;
          c1 = (if length (pc_extraLevels pc) > 0
                then c0\<lparr>extraLevels := pc_extraLevels pc,
                        outputLevel := length (inputs c0) - 1\<rparr>
                else c0);
          c2 = (if level (inputs c1 ! outputLevel c1) + 1 < numLevels
                then c1\<lparr>grandparents :=
                          Overlaps v (level (inputs c1 ! outputLevel c1) + 1)
                            (smallest c1) (largest c1)\<rparr>
                else c1);
          c3 = setupInuseKeyRanges v c2
      in c3\<lparr>kind := pc_kind pc\<rparr>)"

definition newCompaction ::
  "pickedCompaction \<Rightarrow> (int \<Rightarrow> bool) \<Rightarrow> (nat \<Rightarrow> bool) option \<Rightarrow> version \<Rightarrow> error + compaction" where
  "newCompaction pc shouldCreateShared provider v =
     (if length (pc_inputs pc) < 2 then Inl (Panic ''index out of range'')
      else
        (let c = newCompaction_setup pc v
         in if kind c = compactionKindDefault \<and> files (inputs c ! outputLevel c) = []
               \<and> \<not> hasExtraLevelData c
               \<and> length (files (inputs c ! startLevel c)) = 1
               \<and> SizeSum (grandparents c) \<le> maxOverlapBytes c
            then
              (let m = hd (files (inputs c ! startLevel c));
                   isRemote = (case provider of
                                 None \<Rightarrow> False
                               | Some isLocalTable \<Rightarrow> \<not> isLocalTable (DiskFileNum m));
                   mustCopy = (\<not> isRemote
                               \<and> shouldCreateShared (level (inputs c ! outputLevel c)))
               in if mustCopy then
                    (if \<not> Virtual m then Inr (c\<lparr>kind := compactionKindCopy\<rparr>) else Inr c)
                  else Inr (c\<lparr>kind := compactionKindMove\<rparr>))
            else Inr c))"

text \<open>
  The conditions of the conversion as the code tests them, and the need to copy:
  the file is local and the output level is to be created on shared storage.
\<close>

definition convertible :: "compaction \<Rightarrow> bool" where
  "convertible c =
     (files (inputs c ! outputLevel c) = []
      \<and> \<not> hasExtraLevelData c
      \<and> length (files (inputs c ! startLevel c)) = 1
      \<and> SizeSum (grandparents c) \<le> maxOverlapBytes c)"

definition mustCopy_of :: "(int \<Rightarrow> bool) \<Rightarrow> (nat \<Rightarrow> bool) option \<Rightarrow> compaction \<Rightarrow> bool" where
  "mustCopy_of shouldCreateShared provider c =
     ((case provider of
         None \<Rightarrow> True
       | Some isLocalTable \<Rightarrow> isLocalTable (DiskFileNum (hd (files (inputs c ! startLevel c)))))
      \<and> shouldCreateShared (level (inputs c ! outputLevel c)))"

text \<open>\<open>versionEdit\<close>: deleted files by (level, file number), new files by level.\<close>

record versionEdit =
  DeletedFiles :: "(int \<times> nat) \<rightharpoonup> fileMetadata"
  NewFiles :: "(int \<times> fileMetadata) list"
  RemovedBackingTables :: "nat list"

record compactionOutput =
  meta :: fileMetadata
  isLocal :: bool

text \<open>
  \<open>DB.runMoveOrCopyCompaction\<close>. The result is the triple (version edit, pending
  outputs, error) of the source (its metrics are left out); a panic is the outer
  error. \<open>invariants_Enabled\<close> is the build flag, \<open>Lookup\<close> is
  \<open>d.objProvider.Lookup(fileTypeTable, n)\<close>, and \<open>runCopyCompaction\<close> is the copy
  runner, which does the I/O of a copy and fills the edit, or panics. Reading the file of an
  empty start level, or a level pointer that was never set, is a nil dereference.
\<close>

definition runMoveOrCopyCompaction ::
  "bool \<Rightarrow> (nat \<Rightarrow> error + 'o) \<Rightarrow>
   (compaction \<Rightarrow> fileMetadata \<Rightarrow> 'o \<Rightarrow> versionEdit
      \<Rightarrow> error + versionEdit \<times> compactionOutput list \<times> error option) \<Rightarrow>
   compaction \<Rightarrow> error + (versionEdit option \<times> compactionOutput list \<times> error option)" where
  "runMoveOrCopyCompaction invariants_Enabled Lookup runCopyCompaction c =
     (if startLevel c \<ge> length (inputs c) \<or> outputLevel c \<ge> length (inputs c)
      then Inl (Panic ''nil pointer dereference'')
      else
        (let fs = files (inputs c ! startLevel c) in
         if invariants_Enabled \<and> length fs > 1
         then Inl (Panic ''got more than one file for a move or copy compaction'')
         else if cancel c then Inr (None, [], Some ErrCancelledCompaction)
         else
           (case fs of
              [] \<Rightarrow> Inl (Panic ''nil pointer dereference'')
            | m # rest \<Rightarrow>
                (case Lookup (DiskFileNum m) of
                   Inl err \<Rightarrow> Inr (None, [], Some err)
                 | Inr objMeta \<Rightarrow>
                     (let ve = \<lparr>DeletedFiles =
                                   [(level (inputs c ! startLevel c), FileNum m) \<mapsto> m],
                                NewFiles = [(level (inputs c ! outputLevel c), m)],
                                RemovedBackingTables = []\<rparr>
                      in if kind c = compactionKindMove then Inr (Some ve, [], None)
                         else
                           (case runCopyCompaction c m objMeta ve of
                              Inl p \<Rightarrow> Inl p
                            | Inr (ve', pendingOutputs, err) \<Rightarrow>
                                Inr (Some ve', pendingOutputs, err)))))))"

text \<open>What \<open>clearCompactingState\<close> does to one input file that is being compacted.\<close>

definition set_cleared :: "compactionKind \<Rightarrow> bool \<Rightarrow> fileMetadata \<Rightarrow> fileMetadata" where
  "set_cleared k rollback f =
     f\<lparr>CompactionState := cleared_state k rollback, IsIntraL0Compacting := False\<rparr>"

section \<open>Checkpoints\<close>

subsection \<open>File system and database state\<close>

text \<open>
  A path is its list of components. The file system maps a path to what is there:
  a directory, a link to or copy of a source file, a manifest (its records), an
  atomic marker with its value, or the record of the remote objects referenced.
  The file of a marker carries the marker's name and its value in its own name. Syncing is not modelled (it changes no
  content).
\<close>

type_synonym path = "string list"

datatype manifest_record =
    SourceRecord string
  | EditRecord versionEdit

datatype fs_entry =
    Directory
  | CopyOf path
  | Manifest "manifest_record list"
  | Marker string
  | RemoteObjects "nat list"

type_synonym FS = "path \<rightharpoonup> fs_entry"

text \<open>\<open>FS.MkdirAll\<close>: the directory and every missing ancestor.\<close>

definition MkdirAll :: "FS \<Rightarrow> path \<Rightarrow> FS" where
  "MkdirAll fs p = (\<lambda>q. if prefix q p \<and> fs q = None then Some Directory else fs q)"

text \<open>\<open>FS.RemoveAll\<close>: the path and everything below it.\<close>

definition RemoveAll :: "FS \<Rightarrow> path \<Rightarrow> FS" where
  "RemoveAll fs p = (\<lambda>q. if prefix p q then None else fs q)"

text \<open>
  The part of the database \<open>Checkpoint\<close> touches: the file system, the
  counter of \<open>disableFileDeletions\<close>, and the number of empty log-data records
  written to flush the WAL.
\<close>

record DB =
  FS :: FS
  disableFileDeletions :: nat
  logDataSyncs :: nat

record CheckpointSpan =
  SpanStart :: bytes
  SpanEnd :: bytes

record checkpointOptions =
  flushWAL :: bool
  restrictToSpans :: "CheckpointSpan list"
  concurrentLinkOrCopy :: "64 word"

text \<open>
  What \<open>Checkpoint\<close> reads from the database and its collaborators, and the
  failures they can answer with (\<open>None\<close>: the call succeeds). \<open>Stat_err\<close> is
  a failure of \<open>FS.Stat\<close> other than not-exist; \<open>Lookup_remote n\<close> is the object
  provider's answer for a backing: an error, or whether the object is remote;
  \<open>Overlaps_span\<close> is \<open>f.Overlaps(cmp, UserKeyBoundsEndExclusive(s.Start, s.End))\<close>;
  \<open>backings\<close> lists \<open>d.mu.versions.virtualBackings\<close> in the order the Go map
  of them is ranged over; \<open>manifest_records\<close> are the records of the current
  manifest, each with the file offset at which it ends; \<open>queuedLogs\<close> pairs the
  log number of each queued memtable with the segments of that log, if the WAL
  manager lists it.
\<close>

record checkpoint_env =
  dirname :: path
  DisableWAL :: bool
  Levels :: "fileMetadata list list"
  backings :: "nat list"
  manifestFileNum :: nat
  manifestSize :: nat
  manifest_records :: "(string \<times> nat) list"
  optionsFileNum :: nat
  queuedLogs :: "(nat \<times> path list option) list"
  Overlaps_span :: "fileMetadata \<Rightarrow> CheckpointSpan \<Rightarrow> bool"
  MakeFilename_table :: "nat \<Rightarrow> string"
  MakeFilename_manifest :: "nat \<Rightarrow> string"
  MakeFilename_options :: "nat \<Rightarrow> string"
  formatVersion :: string
  Lookup_remote :: "nat \<Rightarrow> error + bool"
  Stat_err :: "error option"
  LogData_err :: "error option"
  List_err :: "error option"
  MkdirAll_err :: "error option"
  SyncParents_err :: "error option"
  LinkOptions_err :: "error option"
  VersionMarker_err :: "error option"
  LinkOrCopy_err :: "nat \<Rightarrow> error option"
  ManifestOpen_err :: "error option"
  ManifestCreate_err :: "error option"
  ManifestCopy_err :: "nat \<Rightarrow> error option"
  ManifestAppend_err :: "error option"
  ManifestClose_err :: "error option"
  ManifestMarker_err :: "error option"
  CheckpointState_err :: "error option"
  CopyWAL_err :: "path \<Rightarrow> error option"
  DirSync_err :: "error option"

subsection \<open>Excluded files and required backings\<close>

text \<open>\<open>excludeFromCheckpoint\<close>.\<close>

definition excludeFromCheckpoint ::
  "checkpoint_env \<Rightarrow> fileMetadata \<Rightarrow> checkpointOptions \<Rightarrow> bool" where
  "excludeFromCheckpoint env f opt =
     (if length (restrictToSpans opt) = 0 then False
      else if list_ex (\<lambda>s. Overlaps_span env f s) (restrictToSpans opt) then False
      else True)"

text \<open>
  The state of the loop of \<open>Checkpoint\<close> that links or copies the tables. The
  source starts a goroutine per local file and stops at the first failure it
  sees; the model links the files in order and stops at the first failure.
\<close>

record link_state =
  excludedFiles :: "(int \<times> nat) \<rightharpoonup> fileMetadata"
  requiredVirtualBackingFiles :: "nat set"
  remoteFiles :: "nat list"
  destFS :: FS

fun link_files ::
  "checkpoint_env \<Rightarrow> checkpointOptions \<Rightarrow> path \<Rightarrow> int \<Rightarrow> fileMetadata list \<Rightarrow> link_state
     \<Rightarrow> error + link_state" where
  "link_files env opt destDir l [] st = Inr st"
| "link_files env opt destDir l (f # fs) st =
     (if excludeFromCheckpoint env f opt then
        link_files env opt destDir l fs
          (st\<lparr>excludedFiles := (excludedFiles st)((l, FileNum f) \<mapsto> f)\<rparr>)
      else if Virtual f \<and> DiskFileNum f \<in> requiredVirtualBackingFiles st then
        link_files env opt destDir l fs st
      else
        (let st1 = (if Virtual f
                    then st\<lparr>requiredVirtualBackingFiles :=
                              insert (DiskFileNum f) (requiredVirtualBackingFiles st)\<rparr>
                    else st)
         in case Lookup_remote env (DiskFileNum f) of
              Inl err \<Rightarrow> Inl err
            | Inr True \<Rightarrow>
                link_files env opt destDir l fs
                  (st1\<lparr>remoteFiles := remoteFiles st1 @ [DiskFileNum f]\<rparr>)
            | Inr False \<Rightarrow>
                (case LinkOrCopy_err env (DiskFileNum f) of
                   Some err \<Rightarrow> Inl err
                 | None \<Rightarrow>
                     link_files env opt destDir l fs
                       (st1\<lparr>destFS := (destFS st1)
                              (destDir @ [MakeFilename_table env (DiskFileNum f)] \<mapsto>
                                 CopyOf (dirname env @ [MakeFilename_table env (DiskFileNum f)]))\<rparr>))))"

fun link_levels ::
  "checkpoint_env \<Rightarrow> checkpointOptions \<Rightarrow> path \<Rightarrow> int \<Rightarrow> fileMetadata list list \<Rightarrow> link_state
     \<Rightarrow> error + link_state" where
  "link_levels env opt destDir l [] st = Inr st"
| "link_levels env opt destDir l (fs # rest) st =
     (case link_files env opt destDir l fs st of
        Inl err \<Rightarrow> Inl err
      | Inr st' \<Rightarrow> link_levels env opt destDir (l + 1) rest st')"

text \<open>The backings that no included virtual table needs (lines 368 to 375).\<close>

definition removeBackingTables_of :: "nat list \<Rightarrow> nat set \<Rightarrow> nat list" where
  "removeBackingTables_of virtualBackingFiles required =
     filter (\<lambda>diskFileNum. diskFileNum \<notin> required) virtualBackingFiles"

subsection \<open>The manifest of the checkpoint\<close>

text \<open>
  Modelled from the spec: \<open>record.NewReader\<close> over an \<open>io.LimitedReader\<close> of
  \<open>manifestSize\<close> bytes (package record) is not among the sources. The spec has
  the existing records copied "up to \<open>manifest_size\<close> record-aligned": the
  reader yields the records that end at or before that offset.
\<close>

definition records_upto :: "nat \<Rightarrow> (string \<times> nat) list \<Rightarrow> string list" where
  "records_upto n recs = map fst (takeWhile (\<lambda>(payload, end_offset). end_offset \<le> n) recs)"

text \<open>
  The copy loop of \<open>writeCheckpointManifest\<close>: one record read and written per
  round; a failure leaves the records written so far.
\<close>

fun copy_records ::
  "(nat \<Rightarrow> error option) \<Rightarrow> nat \<Rightarrow> string list \<Rightarrow> manifest_record list
     \<Rightarrow> error option \<times> manifest_record list" where
  "copy_records fail i [] w = (None, w)"
| "copy_records fail i (r # rs) w =
     (case fail i of
        Some err \<Rightarrow> (Some err, w)
      | None \<Rightarrow> copy_records fail (i + 1) rs (w @ [SourceRecord r]))"

text \<open>
  \<open>DB.writeCheckpointManifest\<close>: the error it returns, if any, and the file
  system it leaves. \<open>len(excludedFiles) > 0\<close> is \<open>dom excluded \<noteq> {}\<close>.
\<close>

definition writeCheckpointManifest ::
  "checkpoint_env \<Rightarrow> FS \<Rightarrow> path \<Rightarrow> nat \<Rightarrow> nat \<Rightarrow> ((int \<times> nat) \<rightharpoonup> fileMetadata) \<Rightarrow> nat list
     \<Rightarrow> error option \<times> FS" where
  "writeCheckpointManifest env fs destDirPath manifestFileNum' manifestSize' excluded
       removeBackingTables =
     (let destPath = destDirPath @ [MakeFilename_manifest env manifestFileNum'] in
      case ManifestOpen_err env of
        Some err \<Rightarrow> (Some err, fs)
      | None \<Rightarrow>
      (case ManifestCreate_err env of
        Some err \<Rightarrow> (Some err, fs)
      | None \<Rightarrow>
      (case copy_records (ManifestCopy_err env) 0
              (records_upto manifestSize' (manifest_records env)) [] of
        (Some err, w) \<Rightarrow> (Some err, fs(destPath \<mapsto> Manifest w))
      | (None, w) \<Rightarrow>
      (if dom excluded \<noteq> {} \<and> ManifestAppend_err env \<noteq> None
       then (ManifestAppend_err env, fs(destPath \<mapsto> Manifest w))
       else
         (let w' = (if dom excluded \<noteq> {}
                    then w @ [EditRecord \<lparr>DeletedFiles = excluded, NewFiles = [],
                                           RemovedBackingTables = removeBackingTables\<rparr>]
                    else w);
              fs' = fs(destPath \<mapsto> Manifest w')
          in case ManifestClose_err env of
               Some err \<Rightarrow> (Some err, fs')
             | None \<Rightarrow>
                 (case ManifestMarker_err env of
                    Some err \<Rightarrow> (Some err, fs')
                  | None \<Rightarrow>
                      (None, fs'(destDirPath
                                   @ [''marker.manifest.'' @ MakeFilename_manifest env manifestFileNum']
                                 \<mapsto> Marker (MakeFilename_manifest env manifestFileNum')))))))))"

subsection \<open>Checkpoint\<close>

text \<open>The loop that copies the WAL segments of the queued memtables.\<close>

fun copy_segments :: "checkpoint_env \<Rightarrow> path \<Rightarrow> path list \<Rightarrow> FS \<Rightarrow> error option \<times> FS" where
  "copy_segments env destDir [] fs = (None, fs)"
| "copy_segments env destDir (srcPath # rest) fs =
     (case CopyWAL_err env srcPath of
        Some err \<Rightarrow> (Some err, fs)
      | None \<Rightarrow> copy_segments env destDir rest (fs(destDir @ [last srcPath] \<mapsto> CopyOf srcPath)))"

fun copy_logs ::
  "checkpoint_env \<Rightarrow> path \<Rightarrow> (nat \<times> path list option) list \<Rightarrow> FS \<Rightarrow> error option \<times> FS" where
  "copy_logs env destDir [] fs = (None, fs)"
| "copy_logs env destDir ((logNum, None) # rest) fs = (Some (Errorf ''log not found''), fs)"
| "copy_logs env destDir ((logNum, Some segs) # rest) fs =
     (case copy_segments env destDir segs fs of
        (Some err, fs') \<Rightarrow> (Some err, fs')
      | (None, fs') \<Rightarrow> copy_logs env destDir rest fs')"

text \<open>
  The part of \<open>Checkpoint\<close> that runs under the deferred cleanup, from
  \<open>mkdirAllAndSyncParents\<close> to the end: the value of \<open>ckErr\<close> and the file
  system when the function returns.
\<close>

definition Checkpoint_files ::
  "checkpoint_env \<Rightarrow> checkpointOptions \<Rightarrow> path \<Rightarrow> FS \<Rightarrow> error option \<times> FS" where
  "Checkpoint_files env opt destDir fs0 =
     (case MkdirAll_err env of
        Some err \<Rightarrow> (Some err, fs0)
      | None \<Rightarrow>
      (let fs1 = MkdirAll fs0 destDir in
       case SyncParents_err env of
         Some err \<Rightarrow> (Some err, fs1)
       | None \<Rightarrow>
       (case LinkOptions_err env of
          Some err \<Rightarrow> (Some err, fs1)
        | None \<Rightarrow>
        (let fs2 = fs1(destDir @ [MakeFilename_options env (optionsFileNum env)] \<mapsto>
                         CopyOf (dirname env @ [MakeFilename_options env (optionsFileNum env)]))
         in case VersionMarker_err env of
              Some err \<Rightarrow> (Some err, fs2)
            | None \<Rightarrow>
            (let fs3 = fs2(destDir @ [''marker.format-version.'' @ formatVersion env] \<mapsto>
                             Marker (formatVersion env))
             in case link_levels env opt destDir 0 (Levels env)
                       \<lparr>excludedFiles = Map.empty, requiredVirtualBackingFiles = {},
                        remoteFiles = [], destFS = fs3\<rparr> of
                  Inl err \<Rightarrow> (Some err, fs3)
                | Inr st \<Rightarrow>
                (case writeCheckpointManifest env (destFS st) destDir (manifestFileNum env)
                        (manifestSize env) (excludedFiles st)
                        (removeBackingTables_of (backings env) (requiredVirtualBackingFiles st)) of
                   (Some err, fs4) \<Rightarrow> (Some err, fs4)
                 | (None, fs4) \<Rightarrow>
                 (if length (remoteFiles st) > 0 \<and> CheckpointState_err env \<noteq> None
                  then (CheckpointState_err env, fs4)
                  else
                    (let fs5 = (if length (remoteFiles st) > 0
                                then fs4(destDir @ [''REMOTE-OBJ-CATALOG''] \<mapsto>
                                           RemoteObjects (remoteFiles st))
                                else fs4)
                     in case copy_logs env destDir (queuedLogs env) fs5 of
                          (Some err, fs6) \<Rightarrow> (Some err, fs6)
                        | (None, fs6) \<Rightarrow> (DirSync_err env, fs6)))))))))"

text \<open>
  \<open>DB.Checkpoint\<close>. The existence check, the WAL flush and the listing of the
  logs return before the cleanup is deferred; the deferred
  \<open>enableFileDeletions\<close> runs on every return after \<open>disableFileDeletions\<close>.
\<close>

definition enableFileDeletions :: "DB \<Rightarrow> DB" where
  "enableFileDeletions d = d\<lparr>disableFileDeletions := disableFileDeletions d - 1\<rparr>"

definition Checkpoint ::
  "checkpoint_env \<Rightarrow> checkpointOptions \<Rightarrow> path \<Rightarrow> DB \<Rightarrow> error option \<times> DB" where
  "Checkpoint env opt0 destDir d =
     (let opt = (if concurrentLinkOrCopy opt0 = 0 then opt0\<lparr>concurrentLinkOrCopy := 1\<rparr>
                 else opt0)
      in case Stat_err env of
           Some err \<Rightarrow> (Some err, d)
         | None \<Rightarrow>
         (if FS d destDir \<noteq> None
          then (Some (PathError ''checkpoint'' destDir ErrExist), d)
          else if flushWAL opt \<and> \<not> DisableWAL env \<and> LogData_err env \<noteq> None
          then (LogData_err env, d)
          else
            (let d1 = (if flushWAL opt \<and> \<not> DisableWAL env
                       then d\<lparr>logDataSyncs := logDataSyncs d + 1\<rparr> else d);
                 d2 = d1\<lparr>disableFileDeletions := disableFileDeletions d1 + 1\<rparr>
             in case List_err env of
                  Some err \<Rightarrow> (Some err, enableFileDeletions d2)
                | None \<Rightarrow>
                    (case Checkpoint_files env opt destDir (FS d2) of
                       (ckErr, fs) \<Rightarrow>
                         (ckErr,
                          enableFileDeletions
                            (d2\<lparr>FS := (if ckErr \<noteq> None then RemoveAll fs destDir
                                        else fs)\<rparr>))))))"



section \<open>The range-key snapshot transform\<close>

text \<open>
  \<open>keyspan.Key\<close> and \<open>keyspan.Span\<close>. The trailer of a key is its sequence
  number and kind. The source's fields \<open>Start\<close> and \<open>End\<close> of a span are
  \<open>span_Start\<close> and \<open>span_End\<close> here.
\<close>

record Key =
  Trailer :: "SeqNum \<times> InternalKeyKind"
  Suffix :: bytes
  Value :: bytes

definition Key_SeqNum :: "Key \<Rightarrow> SeqNum" where
  "Key_SeqNum k = fst (Trailer k)"

definition Key_Kind :: "Key \<Rightarrow> InternalKeyKind" where
  "Key_Kind k = snd (Trailer k)"

record Span =
  span_Start :: bytes
  span_End :: bytes
  Keys :: "Key list"

text \<open>
  Modelled from the spec: \<open>base.Visible\<close> (package internal/base) is not among
  the sources. The spec puts a key in the stripe of the smallest snapshot greater
  than its sequence number: a key is visible at a snapshot when its sequence
  number is below the snapshot.
\<close>

definition Visible :: "SeqNum \<Rightarrow> SeqNum \<Rightarrow> bool" where
  "Visible seqNum snapshot = (seqNum < snapshot)"

text \<open>
  Modelled from the spec: \<open>rangekey.Coalesce\<close> (package internal/rangekey) is
  not among the sources. Over the keys of one stripe in internal order (highest
  sequence number first), the spec has the highest \<open>RangeKeySet\<close> at each suffix
  win, a \<open>RangeKeyUnset\<close> shadow the lower keys at its suffix, and a
  \<open>RangeKeyDelete\<close> shadow everything below it. \<open>seen\<close> holds the suffixes
  of the keys kept so far; \<open>eq\<close> is the comparer's \<open>Equal\<close>.
\<close>

fun Coalesce_loop :: "(bytes \<Rightarrow> bytes \<Rightarrow> bool) \<Rightarrow> bytes list \<Rightarrow> Key list \<Rightarrow> Key list" where
  "Coalesce_loop eq seen [] = []"
| "Coalesce_loop eq seen (k # ks) =
     (if Key_Kind k = InternalKeyKindRangeKeyDelete then [k]
      else if list_ex (\<lambda>sfx. eq sfx (Suffix k)) seen then Coalesce_loop eq seen ks
      else k # Coalesce_loop eq (Suffix k # seen) ks)"

definition Coalesce :: "(bytes \<Rightarrow> bytes \<Rightarrow> bool) \<Rightarrow> Key list \<Rightarrow> Key list" where
  "Coalesce eq keys = Coalesce_loop eq [] keys"

text \<open>
  The closure \<open>elideInLastStripe\<close> of \<open>rangeKeyCompactionTransform\<close>: it
  compacts the slice in place, skipping unsets and deletes when
  \<open>elideRangeKey(s.Start, s.End)\<close> holds.
\<close>

fun elideInLastStripe :: "(bytes \<Rightarrow> bytes \<Rightarrow> bool) \<Rightarrow> Span \<Rightarrow> Key list \<Rightarrow> Key list" where
  "elideInLastStripe elideRangeKeyf s [] = []"
| "elideInLastStripe elideRangeKeyf s (k # ks) =
     (if elideRangeKeyf (span_Start s) (span_End s)
         \<and> (Key_Kind k = InternalKeyKindRangeKeyUnset \<or> Key_Kind k = InternalKeyKindRangeKeyDelete)
      then elideInLastStripe elideRangeKeyf s ks
      else k # elideInLastStripe elideRangeKeyf s ks)"

text \<open>
  The inner loop: from the keys not yet consumed (\<open>s.Keys[j:]\<close>) it takes the
  keys that are not visible at the snapshot into the current partition and
  returns the partition and the keys left.
\<close>

fun take_partition :: "SeqNum \<Rightarrow> Key list \<Rightarrow> Key list \<times> Key list" where
  "take_partition snapshot [] = ([], [])"
| "take_partition snapshot (k # ks) =
     (if \<not> Visible (Key_SeqNum k) snapshot then
        (case take_partition snapshot ks of (part, rest) \<Rightarrow> (k # part, rest))
      else ([], k # ks))"

text \<open>
  The outer loop \<open>for i >= 0\<close> runs over the snapshots from the last to the
  first: \<open>snaps_desc\<close> is the list of the snapshots still to visit, in that
  order, \<open>rest\<close> is \<open>s.Keys[j:]\<close> and \<open>dst\<close> is \<open>dst.Keys\<close>. A
  non-empty partition is coalesced, has \<open>elideInLastStripe\<close> applied when it
  reaches the end of the keys (\<open>j == len(s.Keys)\<close>), and is appended. The
  result is \<open>dst.Keys\<close> and the keys left.
\<close>

fun stripes_loop ::
  "(bytes \<Rightarrow> bytes \<Rightarrow> bool) \<Rightarrow> (bytes \<Rightarrow> bytes \<Rightarrow> bool) \<Rightarrow> Span \<Rightarrow> SeqNum list \<Rightarrow> Key list
     \<Rightarrow> Key list \<Rightarrow> Key list \<times> Key list" where
  "stripes_loop eq elideRangeKeyf s [] rest dst = (dst, rest)"
| "stripes_loop eq elideRangeKeyf s (snapshot # snaps_desc) rest dst =
     (case take_partition snapshot rest of
        (part, rest') \<Rightarrow>
          if part \<noteq> [] then
            (let keysDst = Coalesce eq part;
                 keysDst' = (if rest' = [] then elideInLastStripe elideRangeKeyf s keysDst
                             else keysDst)
             in stripes_loop eq elideRangeKeyf s snaps_desc rest' (dst @ keysDst'))
          else stripes_loop eq elideRangeKeyf s snaps_desc rest' dst)"

text \<open>\<open>rangeKeyCompactionTransform\<close>: the span written to \<open>dst\<close>.\<close>

definition rangeKeyCompactionTransform ::
  "(bytes \<Rightarrow> bytes \<Rightarrow> bool) \<Rightarrow> SeqNum list \<Rightarrow> (bytes \<Rightarrow> bytes \<Rightarrow> bool) \<Rightarrow> Span \<Rightarrow> Span" where
  "rangeKeyCompactionTransform eq snapshots elideRangeKeyf s =
     (case stripes_loop eq elideRangeKeyf s (rev snapshots) (Keys s) [] of
        (dst, rest) \<Rightarrow>
          \<lparr>span_Start = span_Start s, span_End = span_End s,
           Keys = (if rest \<noteq> []
                   then dst @ elideInLastStripe elideRangeKeyf s (Coalesce eq rest)
                   else dst)\<rparr>)"

text \<open>
  The transform in the words of the specification. The stripe of a key is the
  index of the smallest snapshot greater than its sequence number (the number of
  snapshots when there is none). The keys of each stripe are coalesced; the
  stripes follow each other from the highest to the lowest; unsets and deletes
  are elided in one stripe, \<open>elided\<close>, when \<open>elide_range_key\<close> holds for
  the span.
\<close>

definition stripe_keys :: "SeqNum list \<Rightarrow> nat \<Rightarrow> Key list \<Rightarrow> Key list" where
  "stripe_keys snapshots i keys =
     filter (\<lambda>k. Snapshots_Index snapshots (Key_SeqNum k) = i) keys"

definition elide_spec :: "(bytes \<Rightarrow> bytes \<Rightarrow> bool) \<Rightarrow> Span \<Rightarrow> Key list \<Rightarrow> Key list" where
  "elide_spec elideRangeKeyf s keys =
     filter (\<lambda>k. \<not> (elideRangeKeyf (span_Start s) (span_End s)
                    \<and> Key_Kind k \<in> {InternalKeyKindRangeKeyUnset, InternalKeyKindRangeKeyDelete}))
       keys"

definition transform_spec ::
  "(bytes \<Rightarrow> bytes \<Rightarrow> bool) \<Rightarrow> SeqNum list \<Rightarrow> (bytes \<Rightarrow> bytes \<Rightarrow> bool) \<Rightarrow> nat \<Rightarrow> Span \<Rightarrow> Key list" where
  "transform_spec eq snapshots elideRangeKeyf elided s =
     concat (map (\<lambda>i. if i = elided
                       then elide_spec elideRangeKeyf s (Coalesce eq (stripe_keys snapshots i (Keys s)))
                       else Coalesce eq (stripe_keys snapshots i (Keys s)))
                 (rev [0 ..< Suc (length snapshots)]))"

text \<open>The lowest stripe that holds a key of the span: the stripe of its last key.\<close>

definition lowest_stripe :: "SeqNum list \<Rightarrow> Span \<Rightarrow> nat" where
  "lowest_stripe snapshots s = Snapshots_Index snapshots (Key_SeqNum (last (Keys s)))"

text \<open>
  Keys in descending order of sequence number, and the contribution of one
  stripe to the output when elision applies to the stripe of the last key.
\<close>

definition desc :: "Key list \<Rightarrow> bool" where
  "desc ks = sorted_wrt (\<lambda>a b. Key_SeqNum b \<le> Key_SeqNum a) ks"

definition striped ::
  "(bytes \<Rightarrow> bytes \<Rightarrow> bool) \<Rightarrow> (bytes \<Rightarrow> bytes \<Rightarrow> bool) \<Rightarrow> Span \<Rightarrow> SeqNum list \<Rightarrow> Key list \<Rightarrow> nat
     \<Rightarrow> Key list" where
  "striped eq el s xs ks i =
     (if i = Snapshots_Index xs (Key_SeqNum (last ks))
      then elide_spec el s (Coalesce eq (stripe_keys xs i ks))
      else Coalesce eq (stripe_keys xs i ks))"

section \<open>Finishing an output\<close>

subsection \<open>Internal keys and file bounds\<close>










subsection \<open>The checks of a finished output\<close>





subsection \<open>Emitting the pending spans\<close>

text \<open>
  What has been added to an \<open>sstable.Writer\<close>: point keys with their
  values, range tombstones and range keys.
\<close>

record Writer =
  w_points :: "(InternalKey \<times> bytes) list"
  w_rangeDels :: "Span list"
  w_rangeKeys :: "Span list"

text \<open>
  The state \<open>finishOutput\<close> works on: the writer \<open>tw\<close> (\<open>None\<close> is nil),
  the range tombstones and range keys pending in the compaction iterator, the
  version edit, the next file number and the files created.
\<close>

record runState =
  tw :: "Writer option"
  iter_tombstones :: "Span list"
  iter_rangeKeys :: "Span list"
  ve :: versionEdit
  nextFileNum :: nat
  createdFiles :: "nat list"















section \<open>Example values\<close>

definition key_a :: InternalKey where
  "key_a = \<lparr>UserKey = Some ''a'', SeqNum = 1, Kind = InternalKeyKindSet\<rparr>"

definition key_z :: InternalKey where
  "key_z = \<lparr>UserKey = Some ''z'', SeqNum = 9, Kind = InternalKeyKindSet\<rparr>"

text \<open>A flush of one memtable into L0, with one in-use range \<open>[b, d]\<close> below it.\<close>

definition flush_example :: compaction where
  "flush_example =
     \<lparr>kind = compactionKindFlush, cancel = False, cmp = bytes_Compare,
      inputs = [\<lparr>level = -1, files = []\<rparr>, \<lparr>level = 0, files = []\<rparr>],
      startLevel = 0, outputLevel = 1, extraLevels = [],
      maxOverlapBytes = -1, disableSpanElision = False, flushing = [7],
      smallest = key_a, largest = key_z, grandparents = [],
      inuseKeyRanges = [\<lparr>Start = Some ''b'', End = Some ''d''\<rparr>],
      inuseEntireRange = False, elideTombstoneIndex = 0,
      allowedZeroSeqNum = False, versionEditApplied = False\<rparr>"

definition key_b3 :: InternalKey where
  "key_b3 = \<lparr>UserKey = Some ''b'', SeqNum = 3, Kind = InternalKeyKindSet\<rparr>"

definition key_d6 :: InternalKey where
  "key_d6 = \<lparr>UserKey = Some ''d'', SeqNum = 6, Kind = InternalKeyKindSet\<rparr>"

definition key_nil :: InternalKey where
  "key_nil = \<lparr>UserKey = None, SeqNum = 0, Kind = InternalKeyKindDelete\<rparr>"

definition file_example :: fileMetadata where
  "file_example =
     \<lparr>FileNum = 12, Size = 100, SmallestSeqNum = 3, LargestSeqNum = 6,
      SmallestPointKey = key_b3, LargestPointKey = key_d6,
      SmallestRangeKey = key_nil, LargestRangeKey = key_nil,
      Smallest = key_b3, Largest = key_d6, boundsSet = True,
      HasPointKeys = True, HasRangeKeys = False, Virtual = False, DiskFileNum = 12,
      CompactionState = CompactionStateCompacting, IsIntraL0Compacting = True\<rparr>"

lemmas file_example_defs = file_example_def key_b3_def key_d6_def key_nil_def

text \<open>A hint from a range tombstone over \<open>[a, m)\<close> with sequence numbers 8 to 9.\<close>

definition hint_example :: deleteCompactionHint where
  "hint_example =
     \<lparr>hintType = deleteCompactionHintTypePointKeyOnly,
      hintStart = Some ''a'', hintEnd = Some ''m'',
      tombstoneLevel = 0, tombstoneFile = 4,
      tombstoneLargestSeqNum = 9, tombstoneSmallestSeqNum = 8, fileSmallestSeqNum = 2\<rparr>"

text \<open>
  Three hints for a compaction over \<open>[b, d]\<close> whose input has largest sequence
  number 6: one overlapping with tombstones from 5 on, one disjoint from the
  compaction, one overlapping with tombstones from 8 on.
\<close>

definition hint_old :: deleteCompactionHint where
  "hint_old = hint_example\<lparr>tombstoneSmallestSeqNum := 5\<rparr>"

definition hint_disjoint :: deleteCompactionHint where
  "hint_disjoint = hint_example\<lparr>hintStart := Some ''x'', hintEnd := Some ''z'',
                                 tombstoneSmallestSeqNum := 5\<rparr>"

definition version_example :: version where
  "version_example =
     \<lparr>Overlaps = (\<lambda>l s e. []), CalculateInuseKeyRanges = (\<lambda>l1 l2 s e. [])\<rparr>"

text \<open>One file in L4, nothing in L5: the seed scenario of a trivial move.\<close>

definition pc_single :: pickedCompaction where
  "pc_single =
     \<lparr>pc_kind = compactionKindDefault, pc_cmp = bytes_Compare,
      pc_inputs = [\<lparr>level = 4, files = [file_example]\<rparr>, \<lparr>level = 5, files = []\<rparr>],
      pc_extraLevels = [],
      pc_smallest = Smallest file_example, pc_largest = Largest file_example,
      pc_maxOverlapBytes = 200\<rparr>"

text \<open>
  A multilevel compaction L4, L5, L6: one file in L4, one in the intermediate
  level L5, none in the output level L6.
\<close>

definition pc_multilevel :: pickedCompaction where
  "pc_multilevel =
     \<lparr>pc_kind = compactionKindDefault, pc_cmp = bytes_Compare,
      pc_inputs = [\<lparr>level = 4, files = [file_example]\<rparr>,
                   \<lparr>level = 5, files = [file_example\<lparr>FileNum := 13, DiskFileNum := 13\<rparr>]\<rparr>,
                   \<lparr>level = 6, files = []\<rparr>],
      pc_extraLevels =
        [\<lparr>level = 5, files = [file_example\<lparr>FileNum := 13, DiskFileNum := 13\<rparr>]\<rparr>],
      pc_smallest = Smallest file_example, pc_largest = Largest file_example,
      pc_maxOverlapBytes = 200\<rparr>"

text \<open>The compaction of \<open>pc_single\<close>, and the same having zeroed sequence numbers.\<close>

definition compaction_example :: compaction where
  "compaction_example = newCompaction_setup pc_single version_example"

definition zeroing_example :: compaction where
  "zeroing_example = compaction_example\<lparr>allowedZeroSeqNum := True\<rparr>"

text \<open>
  A database directory \<open>db\<close> with one table in L1, a manifest of three
  records ending at offsets 5, 10 and 15 of which the first two were written
  when the checkpoint sampled the size 10, and a virtual backing 7 that no table
  uses. No collaborator fails.
\<close>

definition env_example :: checkpoint_env where
  "env_example =
     \<lparr>dirname = [''db''], DisableWAL = False,
      Levels = [[], [file_example]], backings = [7],
      manifestFileNum = 1, manifestSize = 10,
      manifest_records = [(''e1'', 5), (''e2'', 10), (''e3'', 15)],
      optionsFileNum = 2, queuedLogs = [],
      Overlaps_span = (\<lambda>f s. bytes_Compare (SpanStart s) (UserKey (Largest f)) \<le> 0
                             \<and> bytes_Compare (UserKey (Smallest f)) (SpanEnd s) < 0),
      MakeFilename_table = (\<lambda>n. ''000012.sst''),
      MakeFilename_manifest = (\<lambda>n. ''MANIFEST-000001''),
      MakeFilename_options = (\<lambda>n. ''OPTIONS-000002''),
      formatVersion = ''016'',
      Lookup_remote = (\<lambda>n. Inr False),
      Stat_err = None, LogData_err = None, List_err = None, MkdirAll_err = None,
      SyncParents_err = None, LinkOptions_err = None, VersionMarker_err = None,
      LinkOrCopy_err = (\<lambda>n. None), ManifestOpen_err = None, ManifestCreate_err = None,
      ManifestCopy_err = (\<lambda>i. None), ManifestAppend_err = None, ManifestClose_err = None,
      ManifestMarker_err = None, CheckpointState_err = None, CopyWAL_err = (\<lambda>p. None),
      DirSync_err = None\<rparr>"

text \<open>Options without spans, and options restricting the checkpoint to \<open>[x, z)\<close>.\<close>

definition opt_all :: checkpointOptions where
  "opt_all = \<lparr>flushWAL = False, restrictToSpans = [], concurrentLinkOrCopy = 1\<rparr>"



text \<open>A database in whose file system the directory \<open>ckpt\<close> exists, with a file in it.\<close>

definition db_with_dest :: DB where
  "db_with_dest =
     \<lparr>FS = [[''ckpt''] \<mapsto> Directory, [''ckpt'', ''keep''] \<mapsto> Marker ''mine''],
      disableFileDeletions = 0, logDataSyncs = 0\<rparr>"

text \<open>
  A span \<open>[a, c)\<close> with a range-key delete at sequence number 12 above a
  range-key set at 5, and the span of the first seed scenario.
\<close>

definition k_del12 :: Key where
  "k_del12 = \<lparr>Trailer = (12, InternalKeyKindRangeKeyDelete), Suffix = None, Value = None\<rparr>"

definition k_set5 :: Key where
  "k_set5 = \<lparr>Trailer = (5, InternalKeyKindRangeKeySet), Suffix = Some ''@3'',
             Value = Some ''foo''\<rparr>"

definition span_del_set :: Span where
  "span_del_set = \<lparr>span_Start = Some ''a'', span_End = Some ''c'', Keys = [k_del12, k_set5]\<rparr>"

definition k_set :: "SeqNum \<Rightarrow> string \<Rightarrow> Key" where
  "k_set n v = \<lparr>Trailer = (n, InternalKeyKindRangeKeySet), Suffix = Some ''@3'', Value = Some v\<rparr>"

definition span_seed :: Span where
  "span_seed = \<lparr>span_Start = Some ''a'', span_End = Some ''c'',
                Keys = [k_set 9 ''foo5'', k_set 4 ''foo3'', k_set 3 ''foo2'']\<rparr>"

















section \<open>Flushes never elide and never zero sequence numbers\<close>

text \<open>
  Claim C6. For every compaction whose flushing list is non-empty (a flush),
  \<open>elideTombstone\<close> answers false for every key (and leaves the cursor alone),
  \<open>elideRangeTombstone\<close> answers false for every range, and so \<open>allowZeroSeqNum\<close>
  is false.
\<close>

theorem flush_never_elides:
  assumes "flushing c \<noteq> []"
  shows "fst (elideTombstone c key) = False
    \<and> snd (elideTombstone c key) = c
    \<and> elideRangeTombstone c start end = False
    \<and> allowZeroSeqNum c = False"
  using assms by (simp add: elideTombstone_def elideRangeTombstone_def allowZeroSeqNum_def)

theorem flush_never_elides_witness:
  "flushing flush_example \<noteq> []
   \<and> fst (elideTombstone flush_example (Some ''a'')) = False
   \<and> elideRangeTombstone flush_example (Some ''e'') (Some ''f'') = False
   \<and> allowZeroSeqNum flush_example = False"
proof -
  have f: "flushing flush_example \<noteq> []"
    by (simp add: flush_example_def)
  show ?thesis
    using f flush_never_elides [OF f, of "Some ''a''" "Some ''e''" "Some ''f''"]
    by simp
qed

section \<open>The delete rule of a hint\<close>

text \<open>
  Claim C2. \<open>canDelete\<close> returns true exactly when the file's largest sequence
  number is below the hint's smallest tombstone sequence number, its smallest
  sequence number is at least the hint's recorded file-smallest sequence number,
  the hint's largest tombstone sequence number and the file's smallest sequence
  number lie in one snapshot stripe, the hint type matches the file, and the file's
  user-key bounds lie in \<open>[start, end)\<close>. For the three hint types of the
  specification it returns the truth value of that condition; a hint of unknown
  type never yields true (the switch panics once the sequence-number tests pass).
\<close>

theorem canDelete_iff:
  "(canDelete h cmpf m snapshots = Inr True) = can_delete_spec h cmpf m snapshots
   \<and> (hintType h \<noteq> deleteCompactionHintTypeUnknown \<longrightarrow>
        canDelete h cmpf m snapshots = Inr (can_delete_spec h cmpf m snapshots))"
  by (cases "hintType h")
     (auto simp: canDelete_def can_delete_spec_def hint_type_matches_def Let_def not_le not_less)

theorem canDelete_iff_witness:
  "hintType hint_example \<noteq> deleteCompactionHintTypeUnknown
   \<and> canDelete hint_example bytes_Compare file_example [1, 20] = Inr True
   \<and> can_delete_spec hint_example bytes_Compare file_example [1, 20]"
proof -
  have t: "hintType hint_example \<noteq> deleteCompactionHintTypeUnknown"
    by (simp add: hint_example_def)
  have r: "canDelete hint_example bytes_Compare file_example [1, 20] = Inr True"
    by (simp add: canDelete_def hint_example_def file_example_defs bytes_Compare_def)
  from canDelete_iff [of hint_example bytes_Compare file_example "[1, 20]"] r
  have "can_delete_spec hint_example bytes_Compare file_example [1, 20]" by simp
  with t r show ?thesis by simp
qed

lemma canDelete_unknown_type:
  "hintType h = deleteCompactionHintTypeUnknown \<Longrightarrow>
   canDelete h cmpf m snapshots \<noteq> Inr True"
  by (simp add: canDelete_def Let_def)

section \<open>Invalidation of hints by a compaction that zeroed sequence numbers\<close>

lemma inputsOlder_iff: "inputsOlder h c = (\<not> input_as_recent h c)"
proof -
  have inner: "fold (\<lambda>f acc'. acc' \<and> LargestSeqNum f < tombstoneSmallestSeqNum h) fs acc
      = (acc \<and> (\<forall>f \<in> set fs. LargestSeqNum f < tombstoneSmallestSeqNum h))" for fs acc
    by (induction fs arbitrary: acc) auto
  have outer: "fold (\<lambda>inp acc.
            fold (\<lambda>f acc'. acc' \<and> LargestSeqNum f < tombstoneSmallestSeqNum h) (files inp) acc)
          ins acc
      = (acc \<and> (\<forall>inp \<in> set ins. \<forall>f \<in> set (files inp).
                  LargestSeqNum f < tombstoneSmallestSeqNum h))" for ins acc
    by (induction ins arbitrary: acc) (auto simp: inner)
  show ?thesis
    by (auto simp: inputsOlder_def input_as_recent_def outer not_le)
qed

lemma updateHints_loop_filter:
  "updateHints_loop d_cmp c hs acc = acc @ filter (\<lambda>h. \<not> hint_invalidated d_cmp c h) hs"
  by (induction hs arbitrary: acc)
     (auto simp: Let_def hint_invalidated_def spans_overlap_def inputsOlder_iff not_le not_less)

text \<open>
  Claim C3. When the compaction was allowed to zero sequence numbers, the hint
  list becomes the list of its hints that are not invalidated, in their order: a
  hint is dropped exactly when its span \<open>[start, end]\<close> overlaps the compaction's
  bounds and some input file has a largest sequence number at or above the hint's
  smallest tombstone sequence number. Otherwise the list is unchanged.
\<close>

theorem hints_updated:
  "maybeUpdateDeleteCompactionHints d_cmp c hints =
     (if allowedZeroSeqNum c then filter (\<lambda>h. \<not> hint_invalidated d_cmp c h) hints else hints)
   \<and> (\<forall>h \<in> set hints.
         (h \<notin> set (maybeUpdateDeleteCompactionHints d_cmp c hints))
           = (allowedZeroSeqNum c \<and> hint_invalidated d_cmp c h))"
  by (auto simp: maybeUpdateDeleteCompactionHints_def updateHints_loop_filter)

theorem hints_updated_witness:
  "maybeUpdateDeleteCompactionHints bytes_Compare zeroing_example
      [hint_old, hint_disjoint, hint_example] = [hint_disjoint, hint_example]
   \<and> hint_invalidated bytes_Compare zeroing_example hint_old
   \<and> maybeUpdateDeleteCompactionHints bytes_Compare compaction_example
      [hint_old, hint_disjoint, hint_example] = [hint_old, hint_disjoint, hint_example]"
proof -
  have a: "allowedZeroSeqNum zeroing_example" "\<not> allowedZeroSeqNum compaction_example"
    by (simp_all add: zeroing_example_def compaction_example_def newCompaction_setup_def
        setupInuseKeyRanges_def Let_def)
  have i: "inputs zeroing_example = pc_inputs pc_single"
    "UserKey (smallest zeroing_example) = Some ''b''"
    "UserKey (largest zeroing_example) = Some ''d''"
    by (simp_all add: zeroing_example_def compaction_example_def newCompaction_setup_def
        setupInuseKeyRanges_def Let_def pc_single_def file_example_defs)
  have h: "hint_invalidated bytes_Compare zeroing_example hint_old"
    "\<not> hint_invalidated bytes_Compare zeroing_example hint_disjoint"
    "\<not> hint_invalidated bytes_Compare zeroing_example hint_example"
    by (simp_all add: hint_invalidated_def spans_overlap_def input_as_recent_def i
        pc_single_def file_example_defs hint_old_def hint_disjoint_def hint_example_def
        bytes_Compare_def)
  show ?thesis
    using a h
      hints_updated [of bytes_Compare zeroing_example "[hint_old, hint_disjoint, hint_example]"]
      hints_updated [of bytes_Compare compaction_example "[hint_old, hint_disjoint, hint_example]"]
    by simp
qed

section \<open>Clearing the compacting state\<close>

lemma clear_file_eq:
  "clear_file k rollback f =
     (if IsCompacting f then Inr (set_cleared k rollback f)
      else Inl (Fatal ''not being compacted''))"
  by (simp add: clear_file_def set_cleared_def cleared_state_def)

lemma clear_files_ok:
  "\<forall>f \<in> set fs. IsCompacting f \<Longrightarrow>
   clear_files k rollback fs = Inr (map (set_cleared k rollback) fs)"
  by (induction fs) (simp_all add: clear_file_eq)

lemma clear_levels_ok:
  "\<forall>cl \<in> set cls. \<forall>f \<in> set (files cl). IsCompacting f \<Longrightarrow>
   clear_levels k rollback cls
     = Inr (map (\<lambda>cl. cl\<lparr>files := map (set_cleared k rollback) (files cl)\<rparr>) cls)"
  by (induction cls) (simp_all add: clear_files_ok)

lemma clear_files_fatal:
  "\<exists>f \<in> set fs. \<not> IsCompacting f \<Longrightarrow>
   clear_files k rollback fs = Inl (Fatal ''not being compacted'')"
  by (induction fs) (auto simp: clear_file_eq)

text \<open>
  Claim C9. When every input file is being compacted, \<open>clearCompactingState\<close>
  returns, and every input file is left in the state \<open>cleared_state\<close>: not
  compacting on rollback; on success not compacting for a move compaction and
  compacted for every other kind. The intra-L0 marker of every input file is
  cleared, and nothing else in a file changes.
\<close>

theorem clearCompactingState_ok:
  assumes "\<forall>cl \<in> set (inputs c). \<forall>f \<in> set (files cl). IsCompacting f"
  shows "clearCompactingState c rollback =
     Inr (c\<lparr>versionEditApplied := True,
            inputs := map (\<lambda>cl. cl\<lparr>files := map (set_cleared (kind c) rollback) (files cl)\<rparr>)
                        (inputs c)\<rparr>)"
  using assms by (simp add: clearCompactingState_def clear_levels_ok)

theorem clearCompactingState_ok_witness:
  "map (map IsCompacting \<circ> files) (inputs compaction_example) = [[True], []]
   \<and> (\<exists>c'. clearCompactingState compaction_example False = Inr c'
         \<and> map (map CompactionState \<circ> files) (inputs c') = [[CompactionStateCompacted], []]
         \<and> map (map IsIntraL0Compacting \<circ> files) (inputs c') = [[False], []])
   \<and> (\<exists>c'. clearCompactingState compaction_example True = Inr c'
         \<and> map (map CompactionState \<circ> files) (inputs c') = [[CompactionStateNotCompacting], []])
   \<and> (\<exists>c'. clearCompactingState (compaction_example\<lparr>kind := compactionKindMove\<rparr>) False = Inr c'
         \<and> map (map CompactionState \<circ> files) (inputs c') = [[CompactionStateNotCompacting], []])"
proof -
  have i: "inputs compaction_example = pc_inputs pc_single"
    "kind compaction_example = compactionKindDefault"
    by (simp_all add: compaction_example_def newCompaction_setup_def
        setupInuseKeyRanges_def Let_def pc_single_def)
  have h: "\<forall>cl \<in> set (inputs compaction_example). \<forall>f \<in> set (files cl). IsCompacting f"
    by (simp add: i pc_single_def file_example_defs IsCompacting_def)
  then have h': "\<forall>cl \<in> set (inputs (compaction_example\<lparr>kind := compactionKindMove\<rparr>)).
      \<forall>f \<in> set (files cl). IsCompacting f"
    by simp
  have g: "map (map IsCompacting \<circ> files) (inputs compaction_example) = [[True], []]"
    by (simp add: i pc_single_def file_example_defs IsCompacting_def)
  show ?thesis
    using g clearCompactingState_ok [OF h, of False] clearCompactingState_ok [OF h, of True]
      clearCompactingState_ok [OF h', of False]
    by (simp add: i pc_single_def set_cleared_def cleared_state_def)
qed

section \<open>Conversion into a move or a copy; the edit of a move\<close>

lemma hasExtraLevelData_kind [simp]:
  "hasExtraLevelData (c\<lparr>kind := k\<rparr>) = hasExtraLevelData c"
  by (simp add: hasExtraLevelData_def)

lemma convertible_kind [simp]: "convertible (c\<lparr>kind := k\<rparr>) = convertible c"
  by (simp add: convertible_def)

lemma mustCopy_of_kind [simp]:
  "mustCopy_of scs prov (c\<lparr>kind := k\<rparr>) = mustCopy_of scs prov c"
  by (cases prov) (simp_all add: mustCopy_of_def)

lemma newCompaction_setup_kind: "kind (newCompaction_setup pc v) = pc_kind pc"
  by (simp add: newCompaction_setup_def Let_def)

lemma newCompaction_cases:
  "newCompaction pc scs prov v =
     (if length (pc_inputs pc) < 2 then Inl (Panic ''index out of range'')
      else
        (let c = newCompaction_setup pc v in
         if pc_kind pc = compactionKindDefault \<and> convertible c then
           (if mustCopy_of scs prov c then
              (if Virtual (hd (files (inputs c ! startLevel c))) then Inr c
               else Inr (c\<lparr>kind := compactionKindCopy\<rparr>))
            else Inr (c\<lparr>kind := compactionKindMove\<rparr>))
         else Inr c))"
  unfolding newCompaction_def Let_def convertible_def mustCopy_of_def newCompaction_setup_kind
  by (cases prov) simp_all

lemma newCompaction_kind:
  assumes "newCompaction pc scs prov v = Inr c"
  shows "kind c =
     (if pc_kind pc = compactionKindDefault \<and> convertible c then
        (if mustCopy_of scs prov c then
           (if Virtual (hd (files (inputs c ! startLevel c))) then compactionKindDefault
            else compactionKindCopy)
         else compactionKindMove)
      else pc_kind pc)"
proof -
  let ?c = "newCompaction_setup pc v"
  from assms have len: "\<not> length (pc_inputs pc) < 2"
    by (auto simp: newCompaction_cases split: if_splits)
  from assms len
  have "c = ?c \<or> c = ?c\<lparr>kind := compactionKindCopy\<rparr> \<or> c = ?c\<lparr>kind := compactionKindMove\<rparr>"
    by (auto simp: newCompaction_cases Let_def split: if_splits)
  then have cv: "convertible c = convertible ?c"
    "mustCopy_of scs prov c = mustCopy_of scs prov ?c"
    "files (inputs c ! startLevel c) = files (inputs ?c ! startLevel ?c)"
    by auto
  show ?thesis
    using assms len unfolding cv
    by (auto simp: newCompaction_cases Let_def newCompaction_setup_kind split: if_splits)
qed

lemma runMove_edit:
  assumes "kind c = compactionKindMove" "\<not> cancel c"
    "startLevel c < length (inputs c)" "outputLevel c < length (inputs c)"
    "files (inputs c ! startLevel c) = [m]" "Lookup (DiskFileNum m) = Inr objMeta"
  shows "runMoveOrCopyCompaction ie Lookup runCopy c =
     Inr (Some \<lparr>DeletedFiles = [(level (inputs c ! startLevel c), FileNum m) \<mapsto> m],
                NewFiles = [(level (inputs c ! outputLevel c), m)],
                RemovedBackingTables = []\<rparr>, [], None)"
  using assms by (simp add: runMoveOrCopyCompaction_def)

lemma newCompaction_multilevel:
  "newCompaction pc_multilevel (\<lambda>l. False) None version_example
     = Inr (newCompaction_setup pc_multilevel version_example)"
  by (simp add: newCompaction_cases Let_def convertible_def hasExtraLevelData_def
      newCompaction_setup_def pc_multilevel_def setupInuseKeyRanges_def
      version_example_def numLevels_def)

text \<open>
  The claim as stated fails for a multilevel compaction: a Default compaction
  with one file in the start level, an empty output level, no grandparent overlap
  and no need for shared storage, but with a file in the intermediate level,
  stays a Default compaction.
\<close>

theorem multilevel_not_converted_counterexample:
  "\<exists>c. newCompaction pc_multilevel (\<lambda>l. False) None version_example = Inr c
       \<and> pc_kind pc_multilevel = compactionKindDefault
       \<and> length (files (inputs c ! startLevel c)) = 1
       \<and> files (inputs c ! outputLevel c) = []
       \<and> SizeSum (grandparents c) \<le> maxOverlapBytes c
       \<and> kind c = compactionKindDefault"
  unfolding newCompaction_multilevel
  by (simp add: newCompaction_setup_def pc_multilevel_def setupInuseKeyRanges_def
      version_example_def numLevels_def Let_def SizeSum_def)

text \<open>
  Claim C7, amended. A compaction picked as Default, with an empty output level,
  no data in an intermediate level, exactly one file in the start level and
  grandparent overlap of at most \<open>maxOverlapBytes\<close>, becomes a Move unless the file
  is local and the output level is to be created on shared storage; in that case
  it becomes a Copy when the file is not virtual and stays Default when it is.
  Any other picked compaction keeps its kind. A Move compaction that is not
  cancelled and whose file the object provider finds returns the edit that
  deletes the file from the start level and adds the same metadata to the output
  level, with no pending output.
\<close>

theorem move_conversion_and_edit:
  "(newCompaction pc scs prov v = Inr c \<longrightarrow>
      kind c =
        (if pc_kind pc = compactionKindDefault \<and> convertible c then
           (if mustCopy_of scs prov c then
              (if Virtual (hd (files (inputs c ! startLevel c))) then compactionKindDefault
               else compactionKindCopy)
            else compactionKindMove)
         else pc_kind pc))
   \<and> (kind c' = compactionKindMove \<and> \<not> cancel c'
        \<and> startLevel c' < length (inputs c') \<and> outputLevel c' < length (inputs c')
        \<and> files (inputs c' ! startLevel c') = [m] \<and> Lookup (DiskFileNum m) = Inr objMeta \<longrightarrow>
      runMoveOrCopyCompaction ie Lookup runCopy c' =
        Inr (Some \<lparr>DeletedFiles = [(level (inputs c' ! startLevel c'), FileNum m) \<mapsto> m],
                   NewFiles = [(level (inputs c' ! outputLevel c'), m)],
                   RemovedBackingTables = []\<rparr>, [], None))"
  using newCompaction_kind [of pc scs prov v c] runMove_edit [of c' m Lookup objMeta ie runCopy]
  by blast

theorem move_conversion_and_edit_witness:
  "newCompaction pc_single (\<lambda>l. False) None version_example
     = Inr (compaction_example\<lparr>kind := compactionKindMove\<rparr>)
   \<and> convertible (compaction_example\<lparr>kind := compactionKindMove\<rparr>)
   \<and> runMoveOrCopyCompaction False (\<lambda>n. Inr ()) (\<lambda>c f u ve. Inr (ve, [], None))
       (compaction_example\<lparr>kind := compactionKindMove\<rparr>)
     = Inr (Some \<lparr>DeletedFiles = [(4, 12) \<mapsto> file_example],
                  NewFiles = [(5, file_example)],
                  RemovedBackingTables = []\<rparr>, [], None)
   \<and> (\<exists>c. newCompaction pc_single (\<lambda>l. True) None version_example = Inr c
          \<and> kind c = compactionKindCopy)"
proof -
  let ?mv = "compaction_example\<lparr>kind := compactionKindMove\<rparr>"
  have f: "inputs compaction_example = pc_inputs pc_single"
    "startLevel compaction_example = 0" "outputLevel compaction_example = 1"
    "grandparents compaction_example = []" "extraLevels compaction_example = []"
    "maxOverlapBytes compaction_example = 200" "\<not> cancel compaction_example"
    by (simp_all add: compaction_example_def newCompaction_setup_def
        setupInuseKeyRanges_def Let_def pc_single_def numLevels_def version_example_def)
  have cv: "convertible compaction_example"
    by (simp add: convertible_def f pc_single_def hasExtraLevelData_def SizeSum_def)
  have mc: "\<not> mustCopy_of (\<lambda>l. False) None compaction_example"
    "mustCopy_of (\<lambda>l. True) None compaction_example"
    by (simp_all add: mustCopy_of_def)
  have nv: "\<not> Virtual (hd (files (inputs compaction_example ! startLevel compaction_example)))"
    by (simp add: f pc_single_def file_example_defs)
  have pk: "pc_kind pc_single = compactionKindDefault" "length (pc_inputs pc_single) = 2"
    by (simp_all add: pc_single_def)
  have n1: "newCompaction pc_single (\<lambda>l. False) None version_example = Inr ?mv"
    using cv mc pk
    by (simp add: newCompaction_cases compaction_example_def [symmetric] Let_def)
  have n2: "newCompaction pc_single (\<lambda>l. True) None version_example
      = Inr (compaction_example\<lparr>kind := compactionKindCopy\<rparr>)"
    using cv mc nv pk
    by (simp add: newCompaction_cases compaction_example_def [symmetric] Let_def)
  have pre: "kind ?mv = compactionKindMove \<and> \<not> cancel ?mv
      \<and> startLevel ?mv < length (inputs ?mv) \<and> outputLevel ?mv < length (inputs ?mv)
      \<and> files (inputs ?mv ! startLevel ?mv) = [file_example]
      \<and> (\<lambda>n. Inr ()) (DiskFileNum file_example) = (Inr () :: error + unit)"
    by (simp add: f pc_single_def)
  have lv: "level (inputs ?mv ! startLevel ?mv) = 4" "level (inputs ?mv ! outputLevel ?mv) = 5"
    "FileNum file_example = 12"
    by (simp_all add: f pc_single_def file_example_defs)
  from move_conversion_and_edit
         [of pc_single "\<lambda>l. True" None version_example
             "compaction_example\<lparr>kind := compactionKindCopy\<rparr>"
             ?mv file_example "\<lambda>n. Inr ()" "()" False "\<lambda>c f u ve. Inr (ve, [], None)"]
       pre n2
  have run: "runMoveOrCopyCompaction False (\<lambda>n. Inr ()) (\<lambda>c f u ve. Inr (ve, [], None)) ?mv
      = Inr (Some \<lparr>DeletedFiles = [(4, 12) \<mapsto> file_example],
                   NewFiles = [(5, file_example)],
                   RemovedBackingTables = []\<rparr>, [], None)"
    and k: "kind (compaction_example\<lparr>kind := compactionKindCopy\<rparr>) = compactionKindCopy"
    unfolding lv by simp_all
  show ?thesis
    using n1 n2 cv run by simp
qed

section \<open>The manifest of a checkpoint\<close>














section \<open>A checkpoint into an existing directory\<close>

text \<open>
  Claim C10. When the destination directory exists, \<open>Checkpoint\<close> leaves the
  database and its file system exactly as they were, whatever the collaborators
  answer, and, \<open>Stat\<close> having answered, returns the path error that wraps
  \<open>ErrExist\<close>. The cleanup that removes the destination runs only for failures
  after the existence check.
\<close>

theorem Checkpoint_existing_destination:
  assumes "FS d destDir \<noteq> None"
  shows "snd (Checkpoint env opt destDir d) = d
    \<and> (Stat_err env = None \<longrightarrow>
         fst (Checkpoint env opt destDir d) = Some (PathError ''checkpoint'' destDir ErrExist))"
  using assms by (auto simp: Checkpoint_def Let_def split: option.splits)

theorem Checkpoint_existing_destination_witness:
  "FS db_with_dest [''ckpt''] = Some Directory
   \<and> Checkpoint env_example opt_all [''ckpt''] db_with_dest
       = (Some (PathError ''checkpoint'' [''ckpt''] ErrExist), db_with_dest)"
proof -
  have e: "FS db_with_dest [''ckpt''] \<noteq> None" "FS db_with_dest [''ckpt''] = Some Directory"
    by (simp_all add: db_with_dest_def)
  have s: "Stat_err env_example = None"
    by (simp add: env_example_def)
  from Checkpoint_existing_destination [OF e(1), of env_example opt_all] s
  have "Checkpoint env_example opt_all [''ckpt''] db_with_dest
       = (Some (PathError ''checkpoint'' [''ckpt''] ErrExist), db_with_dest)"
    by (simp add: prod_eq_iff)
  with e(2) show ?thesis by simp
qed

text \<open>
  For contrast: a checkpoint into a directory that does not exist and that
  fails leaves no destination directory behind.
\<close>

lemma Checkpoint_failure_removes_destination:
  assumes "FS d destDir = None" and "fst (Checkpoint env opt destDir d) \<noteq> None"
  shows "FS (snd (Checkpoint env opt destDir d)) destDir = None"
  using assms unfolding Checkpoint_def Let_def
  by (auto simp: enableFileDeletions_def RemoveAll_def split: option.splits if_splits prod.splits)

section \<open>The range-key snapshot transform\<close>

lemma take_partition_eq:
  "take_partition snapshot ks
     = (takeWhile (\<lambda>k. \<not> Visible (Key_SeqNum k) snapshot) ks,
        dropWhile (\<lambda>k. \<not> Visible (Key_SeqNum k) snapshot) ks)"
  by (induction ks) auto

lemma elideInLastStripe_eq: "elideInLastStripe e s ks = elide_spec e s ks"
  by (induction ks) (auto simp: elide_spec_def)

lemma Snapshots_Index_le: "Snapshots_Index xs q \<le> length xs"
  by (induction xs) auto

lemma Snapshots_Index_all_le:
  "\<forall>y \<in> set xs. y \<le> q \<Longrightarrow> Snapshots_Index xs q = length xs"
  by (induction xs) (auto simp: not_less)

lemma Snapshots_Index_snoc_below:
  "q < x \<Longrightarrow> Snapshots_Index (xs @ [x]) q = Snapshots_Index xs q"
  by (induction xs) auto

lemma Snapshots_Index_snoc_above:
  assumes "sorted (xs @ [x])" "x \<le> q"
  shows "Snapshots_Index (xs @ [x]) q = Suc (length xs)"
proof -
  from assms have "\<forall>y \<in> set (xs @ [x]). y \<le> q"
    by (auto simp: sorted_append)
  from Snapshots_Index_all_le [OF this] show ?thesis by simp
qed

lemma desc_takeWhile_filter:
  assumes "sorted_wrt (\<lambda>a b. Key_SeqNum b \<le> Key_SeqNum a) ks"
  shows "takeWhile (\<lambda>k. x \<le> Key_SeqNum k) ks = filter (\<lambda>k. x \<le> Key_SeqNum k) ks"
    and "dropWhile (\<lambda>k. x \<le> Key_SeqNum k) ks = filter (\<lambda>k. Key_SeqNum k < x) ks"
  using assms
proof (induction ks)
  case Nil
  { case 1 show ?case by simp }
  { case 2 show ?case by simp }
next
  case (Cons k ks)
  { case 1
    show ?case
    proof (cases "x \<le> Key_SeqNum k")
      case True
      with Cons.IH(1) 1 show ?thesis by simp
    next
      case False
      with 1 have "\<forall>k' \<in> set ks. \<not> x \<le> Key_SeqNum k'" by auto
      then have "filter (\<lambda>k. x \<le> Key_SeqNum k) ks = []" by (simp add: filter_empty_conv)
      with False show ?thesis by simp
    qed }
  { case 2
    show ?case
    proof (cases "x \<le> Key_SeqNum k")
      case True
      with Cons.IH(2) 2 show ?thesis by (simp add: not_less)
    next
      case False
      with 2 have "\<forall>k' \<in> set ks. Key_SeqNum k' < x" by auto
      then have "filter (\<lambda>k. Key_SeqNum k < x) ks = ks" by (simp add: filter_id_conv)
      with False show ?thesis by (simp add: not_le)
    qed }
qed

lemma last_dropWhile_eq: "dropWhile P xs \<noteq> [] \<Longrightarrow> last (dropWhile P xs) = last xs"
proof -
  assume a: "dropWhile P xs \<noteq> []"
  have "last xs = last (takeWhile P xs @ dropWhile P xs)" by simp
  also have "\<dots> = last (dropWhile P xs)" using a by (simp only: last_append if_False)
  finally show ?thesis by simp
qed


lemma Coalesce_Nil [simp]: "Coalesce eq [] = []"
  by (simp add: Coalesce_def)

lemma elide_spec_Nil [simp]: "elide_spec el s [] = []"
  by (simp add: elide_spec_def)

lemma stripe_keys_Nil [simp]: "stripe_keys xs i [] = []"
  by (simp add: stripe_keys_def)

lemma stripe_keys_top:
  assumes "sorted (xs @ [x])"
  shows "stripe_keys (xs @ [x]) (Suc (length xs)) ks = filter (\<lambda>k. x \<le> Key_SeqNum k) ks"
  unfolding stripe_keys_def
proof (rule filter_cong [OF refl])
  fix k
  show "(Snapshots_Index (xs @ [x]) (Key_SeqNum k) = Suc (length xs)) = (x \<le> Key_SeqNum k)"
  proof (cases "x \<le> Key_SeqNum k")
    case True
    with Snapshots_Index_snoc_above [OF assms] show ?thesis by simp
  next
    case False
    then have "Snapshots_Index (xs @ [x]) (Key_SeqNum k) = Snapshots_Index xs (Key_SeqNum k)"
      by (simp add: Snapshots_Index_snoc_below)
    with Snapshots_Index_le [of xs "Key_SeqNum k"] False show ?thesis by simp
  qed
qed

lemma stripe_keys_below:
  assumes "sorted (xs @ [x])" "i \<le> length xs"
  shows "stripe_keys (xs @ [x]) i ks = stripe_keys xs i (filter (\<lambda>k. Key_SeqNum k < x) ks)"
proof -
  have "(Snapshots_Index (xs @ [x]) (Key_SeqNum k) = i)
      = (Key_SeqNum k < x \<and> Snapshots_Index xs (Key_SeqNum k) = i)" for k
  proof (cases "x \<le> Key_SeqNum k")
    case True
    with Snapshots_Index_snoc_above [OF assms(1)] assms(2) show ?thesis by (simp add: not_less)
  next
    case False
    then show ?thesis by (simp add: Snapshots_Index_snoc_below not_le)
  qed
  then show ?thesis
    by (simp add: stripe_keys_def conj_commute)
qed

lemma stripes_loop_spec:
  assumes "sorted xs" "desc ks"
  shows "(case stripes_loop eq el s (rev xs) ks dst of
            (d, r) \<Rightarrow> if r \<noteq> [] then d @ elideInLastStripe el s (Coalesce eq r) else d)
         = dst @ concat (map (striped eq el s xs ks) (rev [0 ..< Suc (length xs)]))"
  using assms
proof (induction xs arbitrary: ks dst rule: rev_induct)
  case Nil
  show ?case
    by (simp add: striped_def stripe_keys_def elideInLastStripe_eq)
next
  case (snoc x xs)
  let ?P = "\<lambda>k. \<not> Visible (Key_SeqNum k) x"
  have P: "?P = (\<lambda>k. x \<le> Key_SeqNum k)"
    by (simp add: Visible_def not_less)
  define part where "part = filter (\<lambda>k. x \<le> Key_SeqNum k) ks"
  define rest where "rest = filter (\<lambda>k. Key_SeqNum k < x) ks"
  from snoc.prems(2) have tp: "take_partition x ks = (part, rest)"
    unfolding take_partition_eq P part_def rest_def desc_def
    by (simp add: desc_takeWhile_filter)
  from snoc.prems(2) have dw: "rest = dropWhile (\<lambda>k. x \<le> Key_SeqNum k) ks"
    unfolding rest_def desc_def by (simp add: desc_takeWhile_filter)
  have sx: "sorted xs" using snoc.prems(1) by (simp add: sorted_append)
  have dr: "desc rest" using snoc.prems(2) unfolding rest_def desc_def
    by (rule sorted_wrt_filter)
  have top: "stripe_keys (xs @ [x]) (Suc (length xs)) ks = part"
    unfolding part_def by (rule stripe_keys_top [OF snoc.prems(1)])
  have ks: "ks = part @ rest"
    using snoc.prems(2) unfolding part_def rest_def desc_def
    by (metis desc_takeWhile_filter takeWhile_dropWhile_id)
  \<comment> \<open>the stripes below the top one are those of the shorter snapshot list over the rest\<close>
  have lower: "striped eq el s (xs @ [x]) ks i = striped eq el s xs rest i"
    if i: "i \<le> length xs" for i
  proof (cases "rest = []")
    case True
    have "stripe_keys (xs @ [x]) i ks = stripe_keys xs i rest"
      unfolding rest_def by (rule stripe_keys_below [OF snoc.prems(1) i])
    then have e: "stripe_keys (xs @ [x]) i ks = []" "stripe_keys xs i rest = []"
      using True by simp_all
    show ?thesis unfolding striped_def e by simp
  next
    case False
    then have l: "last rest = last ks" unfolding dw by (rule last_dropWhile_eq)
    from False have "last rest \<in> set rest" by simp
    then have "Key_SeqNum (last rest) < x" unfolding rest_def by simp
    then have ix: "Snapshots_Index (xs @ [x]) (Key_SeqNum (last ks))
        = Snapshots_Index xs (Key_SeqNum (last rest))"
      unfolding l by (rule Snapshots_Index_snoc_below)
    have e: "stripe_keys (xs @ [x]) i ks = stripe_keys xs i rest"
      unfolding rest_def by (rule stripe_keys_below [OF snoc.prems(1) i])
    show ?thesis unfolding striped_def e ix by (rule refl)
  qed
  have lowers: "map (striped eq el s (xs @ [x]) ks) (rev [0 ..< Suc (length xs)])
      = map (striped eq el s xs rest) (rev [0 ..< Suc (length xs)])"
  proof (rule map_cong [OF refl])
    fix i assume "i \<in> set (rev [0 ..< Suc (length xs)])"
    then have "i \<le> length xs" by auto
    then show "striped eq el s (xs @ [x]) ks i = striped eq el s xs rest i" by (rule lower)
  qed
  \<comment> \<open>the top stripe\<close>
  have topv: "striped eq el s (xs @ [x]) ks (Suc (length xs))
      = (if part \<noteq> [] then
           (if rest = [] then elideInLastStripe el s (Coalesce eq part) else Coalesce eq part)
         else [])"
  proof (cases "part = []")
    case True
    show ?thesis unfolding striped_def top using True by simp
  next
    case pne: False
    show ?thesis
    proof (cases "rest = []")
      case True
      with ks pne have "last ks \<in> set part" by simp
      then have "x \<le> Key_SeqNum (last ks)" unfolding part_def by simp
      from Snapshots_Index_snoc_above [OF snoc.prems(1) this]
      have ix: "Snapshots_Index (xs @ [x]) (Key_SeqNum (last ks)) = Suc (length xs)" .
      show ?thesis unfolding striped_def top ix using pne True
        by (simp add: elideInLastStripe_eq)
    next
      case False
      then have l: "last rest = last ks" unfolding dw by (rule last_dropWhile_eq)
      from False have "last rest \<in> set rest" by simp
      then have "Key_SeqNum (last rest) < x" unfolding rest_def by simp
      then have "Key_SeqNum (last ks) < x" unfolding l .
      then have "Snapshots_Index (xs @ [x]) (Key_SeqNum (last ks))
          = Snapshots_Index xs (Key_SeqNum (last ks))"
        by (rule Snapshots_Index_snoc_below)
      with Snapshots_Index_le [of xs "Key_SeqNum (last ks)"]
      have ix: "Suc (length xs) \<noteq> Snapshots_Index (xs @ [x]) (Key_SeqNum (last ks))"
        by simp
      show ?thesis unfolding striped_def top using ix pne False by simp
    qed
  qed
  have up: "rev [0 ..< Suc (length (xs @ [x]))]
      = Suc (length xs) # rev [0 ..< Suc (length xs)]"
    by simp
  show ?case
    unfolding up list.map concat.simps topv lowers
    using snoc.IH [OF sx dr]
    by (simp add: tp Let_def)
qed


text \<open>
  The claim as stated fails: with the snapshot 10, the delete at sequence
  number 12 lies in the stripe that includes \<open>+\<infinity>\<close> and \<open>elide_range_key\<close>
  holds, yet the transform keeps it, since the set at 5 lies in a lower stripe.
  Eliding in the stripe that includes \<open>+\<infinity>\<close> would leave the set alone.
\<close>

theorem top_stripe_not_elided_counterexample:
  "Keys (rangeKeyCompactionTransform (=) [10] (\<lambda>a b. True) span_del_set) = [k_del12, k_set5]
   \<and> Snapshots_Index [10] (Key_SeqNum k_del12) = length [10 :: SeqNum]
   \<and> Key_Kind k_del12 = InternalKeyKindRangeKeyDelete
   \<and> transform_spec (=) [10] (\<lambda>a b. True) (length [10 :: SeqNum]) span_del_set = [k_set5]"
  by (simp add: rangeKeyCompactionTransform_def span_del_set_def k_del12_def k_set5_def
      Key_SeqNum_def Key_Kind_def Visible_def Coalesce_def transform_spec_def stripe_keys_def
      elide_spec_def)

text \<open>
  Claim C1, amended. For a span whose keys are in descending order of sequence
  number and an ascending snapshot list, the transform keeps the bounds of the
  span and outputs, from the highest stripe to the lowest, the coalesced keys of
  each stripe (a key belongs to the stripe of the smallest snapshot greater than
  its sequence number); in the lowest stripe that holds a key of the span, the
  stripe of its last key, and in no other, it removes the unsets and deletes
  exactly when \<open>elide_range_key(start, end)\<close> holds.
\<close>

theorem rangeKeyCompactionTransform_stripes:
  assumes "sorted snapshots" and "desc (Keys s)"
  shows "rangeKeyCompactionTransform eq snapshots elideRangeKeyf s =
     \<lparr>span_Start = span_Start s, span_End = span_End s,
      Keys = transform_spec eq snapshots elideRangeKeyf (lowest_stripe snapshots s) s\<rparr>"
proof -
  have "transform_spec eq snapshots elideRangeKeyf (lowest_stripe snapshots s) s
      = concat (map (striped eq elideRangeKeyf s snapshots (Keys s))
                  (rev [0 ..< Suc (length snapshots)]))"
    unfolding transform_spec_def lowest_stripe_def
    by (rule arg_cong [where f = concat], rule map_cong [OF refl]) (simp add: striped_def)
  moreover obtain d r where lr:
    "stripes_loop eq elideRangeKeyf s (rev snapshots) (Keys s) [] = (d, r)"
    by (cases "stripes_loop eq elideRangeKeyf s (rev snapshots) (Keys s) []")
  moreover note stripes_loop_spec
    [OF assms, where eq = eq and el = elideRangeKeyf and s = s and dst = "[]"]
  ultimately have "(if r \<noteq> [] then d @ elideInLastStripe elideRangeKeyf s (Coalesce eq r) else d)
      = transform_spec eq snapshots elideRangeKeyf (lowest_stripe snapshots s) s"
    by simp
  then show ?thesis
    unfolding rangeKeyCompactionTransform_def lr by simp
qed

theorem rangeKeyCompactionTransform_stripes_witness:
  "sorted [5, 10, 15 :: SeqNum] \<and> desc (Keys span_seed)
   \<and> lowest_stripe [5, 10, 15] span_seed = 0
   \<and> rangeKeyCompactionTransform (=) [5, 10, 15] (\<lambda>a b. False) span_seed
       = span_seed\<lparr>Keys := [k_set 9 ''foo5'', k_set 4 ''foo3'']\<rparr>
   \<and> rangeKeyCompactionTransform (=) [10] (\<lambda>a b. True) span_del_set = span_del_set"
proof -
  have a: "sorted [5, 10, 15 :: SeqNum]" "sorted [10 :: SeqNum]" by simp_all
  have b: "desc (Keys span_seed)" "desc (Keys span_del_set)"
    by (simp_all add: desc_def span_seed_def span_del_set_def k_set_def k_del12_def k_set5_def
        Key_SeqNum_def)
  have l: "lowest_stripe [5, 10, 15] span_seed = 0" "lowest_stripe [10] span_del_set = 0"
    by (simp_all add: lowest_stripe_def span_seed_def span_del_set_def k_set_def k_set5_def
        Key_SeqNum_def)
  have u: "rev [0 ..< Suc (length [5, 10, 15 :: SeqNum])] = [3, 2, 1, 0]"
    "rev [0 ..< Suc (length [10 :: SeqNum])] = [1, 0]"
    by (simp_all add: upt_rec)
  have t1: "transform_spec (=) [5, 10, 15] (\<lambda>a b. False) 0 span_seed
      = [k_set 9 ''foo5'', k_set 4 ''foo3'']"
    unfolding transform_spec_def u
    by (simp add: span_seed_def k_set_def stripe_keys_def Key_SeqNum_def Key_Kind_def
        Coalesce_def elide_spec_def)
  have t2: "transform_spec (=) [10] (\<lambda>a b. True) 0 span_del_set = [k_del12, k_set5]"
    unfolding transform_spec_def u
    by (simp add: span_del_set_def k_del12_def k_set5_def stripe_keys_def Key_SeqNum_def
        Key_Kind_def Coalesce_def elide_spec_def)
  from rangeKeyCompactionTransform_stripes
         [OF a(1) b(1), where eq = "(=)" and elideRangeKeyf = "\<lambda>a b. False"]
  have r1: "rangeKeyCompactionTransform (=) [5, 10, 15] (\<lambda>a b. False) span_seed
       = span_seed\<lparr>Keys := [k_set 9 ''foo5'', k_set 4 ''foo3'']\<rparr>"
    unfolding l t1 by (simp add: span_seed_def)
  from rangeKeyCompactionTransform_stripes
         [OF a(2) b(2), where eq = "(=)" and elideRangeKeyf = "\<lambda>a b. True"]
  have r2: "rangeKeyCompactionTransform (=) [10] (\<lambda>a b. True) span_del_set = span_del_set"
    unfolding l t2 by (simp add: span_del_set_def)
  from a(1) b(1) l(1) r1 r2 show ?thesis by simp
qed

section \<open>The checks of a finished output\<close>










section \<open>The loops that emit the pending spans\<close>











section \<open>Finishing an output\<close>











section \<open>The spans emitted when an output is finished\<close>














end
